theory Spec2Isabelle
  imports Main "HOL-Library.Sublist"
begin

section \<open>Python strings\<close>

text \<open>
  Strings are lists of characters. Case mapping acts on the ASCII letters, which is what
  \<^verbatim>\<open>str.lower\<close>, \<^verbatim>\<open>str.upper\<close> and \<^verbatim>\<open>str.capitalize\<close> do on the table names the
  generators accept (\<^verbatim>\<open>^[a-zA-Z0-9_]+$\<close>) and on MySQL type names.
\<close>

definition lower_char :: "char \<Rightarrow> char" where
  "lower_char c =
     (case map_of (zip ''ABCDEFGHIJKLMNOPQRSTUVWXYZ'' ''abcdefghijklmnopqrstuvwxyz'') c of
        Some d \<Rightarrow> d | None \<Rightarrow> c)"

definition upper_char :: "char \<Rightarrow> char" where
  "upper_char c =
     (case map_of (zip ''abcdefghijklmnopqrstuvwxyz'' ''ABCDEFGHIJKLMNOPQRSTUVWXYZ'') c of
        Some d \<Rightarrow> d | None \<Rightarrow> c)"

text \<open>\<^verbatim>\<open>s.lower()\<close>\<close>

definition lower :: "string \<Rightarrow> string" where
  "lower s = map lower_char s"

text \<open>\<^verbatim>\<open>s.capitalize()\<close>: the first character upper-cased, all the others lower-cased.\<close>

fun capitalize :: "string \<Rightarrow> string" where
  "capitalize [] = []"
| "capitalize (c # cs) = upper_char c # lower cs"

text \<open>\<^verbatim>\<open>sub in s\<close>, \<^verbatim>\<open>s.endswith(suf)\<close> and \<^verbatim>\<open>s[:-1]\<close>.\<close>

definition contains :: "string \<Rightarrow> string \<Rightarrow> bool" where
  "contains sub s = sublist sub s"

definition endswith :: "string \<Rightarrow> string \<Rightarrow> bool" where
  "endswith s suf = suffix suf s"

definition drop_last :: "string \<Rightarrow> string" where
  "drop_last s = butlast s"

section \<open>Python values\<close>

text \<open>
  A cell of a row returned by \<^verbatim>\<open>DESCRIBE\<close> is a string or \<^verbatim>\<open>None\<close>; a row is a tuple
  of cells. The generated documents are trees of dictionaries (insertion ordered, keyed
  by strings or, for a column whose name is \<^verbatim>\<open>None\<close>, by \<^verbatim>\<open>None\<close>), lists and scalars.
\<close>

datatype cell = Str string | PyNone

type_synonym row = "cell list"

datatype json =
    JStr string
  | JInt int
  | JBool bool
  | JNone
  | JList "json list"
  | JDict "(cell \<times> json) list"
  | JSet "json list"

type_synonym pydict = "(cell \<times> json) list"

datatype error = IndexError | AttributeError | TypeError | NameError | ProgrammingError | IOError

text \<open>\<^verbatim>\<open>d[k] = v\<close>: an existing key keeps its position, a new key goes to the end.\<close>

fun dict_set :: "pydict \<Rightarrow> cell \<Rightarrow> json \<Rightarrow> pydict" where
  "dict_set [] k v = [(k, v)]"
| "dict_set ((k', v') # d) k v = (if k' = k then (k, v) # d else (k', v') # dict_set d k v)"

text \<open>\<^verbatim>\<open>del d[k]\<close> for a key that is present, and \<^verbatim>\<open>k in d\<close>, \<^verbatim>\<open>d.get(k)\<close>.\<close>

definition dict_del :: "pydict \<Rightarrow> cell \<Rightarrow> pydict" where
  "dict_del d k = filter (\<lambda>kv. fst kv \<noteq> k) d"

definition dict_has :: "pydict \<Rightarrow> cell \<Rightarrow> bool" where
  "dict_has d k = (k \<in> set (map fst d))"

definition dict_get :: "pydict \<Rightarrow> cell \<Rightarrow> json option" where
  "dict_get d k = map_of d k"

text \<open>\<^verbatim>\<open>OrderedDict([(k1, v1), ...])\<close> and a dictionary display \<^verbatim>\<open>{k1: v1, ...}\<close> with string keys.\<close>

definition OrderedDict :: "(string \<times> json) list \<Rightarrow> json" where
  "OrderedDict pairs = JDict (foldl (\<lambda>d kv. dict_set d (Str (fst kv)) (snd kv)) [] pairs)"

definition cell_json :: "cell \<Rightarrow> json" where
  "cell_json c = (case c of Str s \<Rightarrow> JStr s | PyNone \<Rightarrow> JNone)"

section \<open>Type Mapper\<close>

text \<open>\<^verbatim>\<open>mysql_type_to_openapi_type\<close> of \<^verbatim>\<open>mysql_to_individual_openapi.py\<close> (the enhanced variant).\<close>

definition mysql_type_to_openapi_type :: "string \<Rightarrow> pydict" where
  "mysql_type_to_openapi_type mysql_type0 =
     (let mysql_type = lower mysql_type0 in
      if contains ''int'' mysql_type then
        (if contains ''bigint'' mysql_type then
           [(Str ''type'', JStr ''integer''), (Str ''format'', JStr ''int64'')]
         else if contains ''tinyint(1)'' mysql_type then
           [(Str ''type'', JStr ''boolean'')]
         else
           [(Str ''type'', JStr ''integer''), (Str ''format'', JStr ''int32'')])
      else if contains ''float'' mysql_type \<or> contains ''double'' mysql_type
              \<or> contains ''decimal'' mysql_type then
        [(Str ''type'', JStr ''number''), (Str ''format'', JStr ''double'')]
      else if contains ''varchar'' mysql_type \<or> contains ''text'' mysql_type
              \<or> contains ''char'' mysql_type then
        [(Str ''type'', JStr ''string'')]
      else if contains ''datetime'' mysql_type \<or> contains ''timestamp'' mysql_type then
        [(Str ''type'', JStr ''string''), (Str ''format'', JStr ''date-time'')]
      else if contains ''date'' mysql_type then
        [(Str ''type'', JStr ''string''), (Str ''format'', JStr ''date'')]
      else if contains ''time'' mysql_type then
        [(Str ''type'', JStr ''string''), (Str ''format'', JStr ''time'')]
      else if contains ''bool'' mysql_type then
        [(Str ''type'', JStr ''boolean'')]
      else if contains ''json'' mysql_type then
        [(Str ''type'', JStr ''object'')]
      else if contains ''enum'' mysql_type then
        [(Str ''type'', JStr ''string'')]
      else
        [(Str ''type'', JStr ''string'')])"

text \<open>\<^verbatim>\<open>mysql_type_to_openapi_type\<close> of \<^verbatim>\<open>mysql_to_openapi.py\<close> (the basic variant).\<close>

definition mysql_type_to_openapi_type_basic :: "string \<Rightarrow> pydict" where
  "mysql_type_to_openapi_type_basic mysql_type0 =
     (let mysql_type = lower mysql_type0 in
      if contains ''int'' mysql_type then
        (if contains ''bigint'' mysql_type then
           [(Str ''type'', JStr ''integer''), (Str ''format'', JStr ''int64'')]
         else
           [(Str ''type'', JStr ''integer''), (Str ''format'', JStr ''int32'')])
      else if contains ''float'' mysql_type \<or> contains ''double'' mysql_type
              \<or> contains ''decimal'' mysql_type then
        [(Str ''type'', JStr ''number''), (Str ''format'', JStr ''double'')]
      else if contains ''varchar'' mysql_type \<or> contains ''text'' mysql_type
              \<or> contains ''char'' mysql_type then
        [(Str ''type'', JStr ''string'')]
      else if contains ''email'' (lower mysql_type) \<or> contains ''mail'' (lower mysql_type) then
        [(Str ''type'', JStr ''string''), (Str ''format'', JStr ''email'')]
      else if contains ''datetime'' mysql_type \<or> contains ''timestamp'' mysql_type then
        [(Str ''type'', JStr ''string''), (Str ''format'', JStr ''date-time'')]
      else if contains ''date'' mysql_type then
        [(Str ''type'', JStr ''string''), (Str ''format'', JStr ''date'')]
      else if contains ''bool'' mysql_type \<or> contains ''tinyint(1)'' mysql_type then
        [(Str ''type'', JStr ''boolean'')]
      else if contains ''json'' mysql_type then
        [(Str ''type'', JStr ''object'')]
      else
        [(Str ''type'', JStr ''string'')])"

section \<open>Naming Transformer\<close>

text \<open>
  \<^verbatim>\<open>resource_name = table_name[:-1] if table_name.endswith('s') else table_name\<close>
  (the specification's \<open>resource_singular\<close>), written the same way in both generators.
\<close>

definition resource_name :: "string \<Rightarrow> string" where
  "resource_name table_name =
     (if endswith table_name ''s'' then drop_last table_name else table_name)"

text \<open>\<^verbatim>\<open>schema_name = table_name.capitalize()\<close> and the singular form used in derived names.\<close>

definition schema_name :: "string \<Rightarrow> string" where
  "schema_name table_name = capitalize table_name"

definition schema_singular :: "string \<Rightarrow> string" where
  "schema_singular table_name =
     (if endswith (schema_name table_name) ''s'' then drop_last (schema_name table_name)
      else schema_name table_name)"

definition new_schema_name :: "string \<Rightarrow> string" where
  "new_schema_name table_name = ''Create'' @ schema_singular table_name"

definition update_schema_name :: "string \<Rightarrow> string" where
  "update_schema_name table_name = ''Update'' @ schema_singular table_name"

definition new_schema_name_basic :: "string \<Rightarrow> string" where
  "new_schema_name_basic table_name = ''New'' @ schema_singular table_name"

section \<open>Query Parameter Advisor: table classification\<close>

definition high_priority_tables :: "string list" where
  "high_priority_tables =
     [''users'', ''tasks'', ''parenttasks'', ''taskassignments'',
      ''assignmentactions'', ''taskconflicts'', ''notifications'',
      ''taskrecurrencerule'', ''reminders'', ''emergencycontacts'',
      ''familyaccount'', ''caregivers'', ''seniors'', ''family'']"

definition medium_priority_tables :: "string list" where
  "medium_priority_tables =
     [''categories'', ''priorities'', ''statuses'', ''roles'',
      ''settings'', ''preferences'', ''schedules'']"

definition system_tables :: "string list" where
  "system_tables =
     [''categorypriority'', ''conflictactions'', ''conflictsuggestions'',
      ''log_'', ''audit_'', ''temp_'', ''backup_'']"

definition should_generate_query_params_individual :: "string \<Rightarrow> bool" where
  "should_generate_query_params_individual table_name =
     (let table_name_lower = lower table_name in
      if list_ex (\<lambda>sys_table. contains sys_table table_name_lower) system_tables then False
      else (list_ex (\<lambda>t. contains t table_name_lower) high_priority_tables \<or>
            list_ex (\<lambda>t. contains t table_name_lower) medium_priority_tables))"

section \<open>Reading rows\<close>

text \<open>
  Reading \<^verbatim>\<open>col[i]\<close> raises \<^verbatim>\<open>IndexError\<close> on a row that is too short, and calling
  \<^verbatim>\<open>.lower()\<close> on \<^verbatim>\<open>None\<close> raises \<^verbatim>\<open>AttributeError\<close>.
\<close>

definition row_get :: "row \<Rightarrow> nat \<Rightarrow> error + cell" where
  "row_get col i = (if i < length col then Inr (col ! i) else Inl IndexError)"

definition cell_lower :: "cell \<Rightarrow> error + string" where
  "cell_lower c = (case c of Str s \<Rightarrow> Inr (lower s) | PyNone \<Rightarrow> Inl AttributeError)"

text \<open>A list comprehension whose element expression may raise: the first failure ends it.\<close>

fun comprehension :: "('a \<Rightarrow> error + 'b) \<Rightarrow> 'a list \<Rightarrow> error + 'b list" where
  "comprehension f [] = Inr []"
| "comprehension f (x # xs) =
     (case f x of
        Inl e \<Rightarrow> Inl e
      | Inr y \<Rightarrow> (case comprehension f xs of Inl e \<Rightarrow> Inl e | Inr ys \<Rightarrow> Inr (y # ys)))"

text \<open>\<^verbatim>\<open>col[0].lower()\<close> and \<^verbatim>\<open>'varchar' in col[1].lower() or 'text' in col[1].lower()\<close>.\<close>

definition col_name_lower :: "row \<Rightarrow> error + string" where
  "col_name_lower col =
     (case row_get col 0 of Inl e \<Rightarrow> Inl e | Inr c \<Rightarrow> cell_lower c)"

definition is_text_column :: "row \<Rightarrow> error + bool" where
  "is_text_column col =
     (case row_get col 1 of
        Inl e \<Rightarrow> Inl e
      | Inr c \<Rightarrow>
          (case cell_lower c of
             Inl e \<Rightarrow> Inl e
           | Inr ty \<Rightarrow> Inr (contains ''varchar'' ty \<or> contains ''text'' ty)))"

text \<open>
  \<^verbatim>\<open>[col[0] for col in columns if ...]\<close>: the condition is evaluated first; it has read
  \<^verbatim>\<open>col[1]\<close>, so \<^verbatim>\<open>col[0]\<close> exists when it is taken.
\<close>

fun text_columns_of :: "row list \<Rightarrow> error + cell list" where
  "text_columns_of [] = Inr []"
| "text_columns_of (col # cols) =
     (case is_text_column col of
        Inl e \<Rightarrow> Inl e
      | Inr b \<Rightarrow>
          (case text_columns_of cols of
             Inl e \<Rightarrow> Inl e
           | Inr rest \<Rightarrow> Inr (if b then col ! 0 # rest else rest)))"

text \<open>\<^verbatim>\<open>", ".join(names)\<close>: an item that is not a string raises \<^verbatim>\<open>TypeError\<close>.\<close>

fun join_comma :: "cell list \<Rightarrow> error + string" where
  "join_comma [] = Inr []"
| "join_comma (PyNone # cs) = Inl TypeError"
| "join_comma [Str s] = Inr s"
| "join_comma (Str s # c # cs) =
     (case join_comma (c # cs) of Inl e \<Rightarrow> Inl e | Inr r \<Rightarrow> Inr (s @ '', '' @ r))"

section \<open>Query Parameter Advisor: parameters\<close>

definition query_param :: "string \<Rightarrow> json \<Rightarrow> string \<Rightarrow> json" where
  "query_param name schema description =
     OrderedDict
       [(''name'', JStr name),
        (''in'', JStr ''query''),
        (''required'', JBool False),
        (''schema'', schema),
        (''description'', JStr description)]"

definition user_params :: "json list" where
  "user_params =
     [query_param ''role_id''
        (OrderedDict
           [(''type'', JStr ''integer''),
            (''enum'', JList [JInt 1, JInt 2, JInt 3]),
            (''description'', JStr ''1=Senior, 2=Family, 3=Caregiver'')])
        ''Filter by user role'',
      query_param ''active'' (OrderedDict [(''type'', JStr ''boolean'')])
        ''Filter by active status'']"

definition name_search_param :: json where
  "name_search_param =
     query_param ''name_search''
       (OrderedDict [(''type'', JStr ''string''), (''minLength'', JInt 2)])
       ''Search by name (partial match, minimum 2 characters)''"

text \<open>
  The schema of \<open>assigned_to\<close> is written \<^verbatim>\<open>{'type', 'integer'}\<close> in the source: a set of
  two strings, not a dictionary.
\<close>

definition task_params :: "json list" where
  "task_params =
     [query_param ''status_id''
        (OrderedDict
           [(''type'', JStr ''integer''),
            (''enum'', JList [JInt 1, JInt 2, JInt 3, JInt 4]),
            (''description'', JStr ''1=Pending, 2=In Progress, 3=Completed, 4=Cancelled'')])
        ''Filter by task status'',
      query_param ''priority_level''
        (OrderedDict
           [(''type'', JStr ''integer''), (''minimum'', JInt 1), (''maximum'', JInt 5)])
        ''Filter by priority level (1=Low, 5=Critical)'',
      query_param ''assigned_to'' (JSet [JStr ''type'', JStr ''integer''])
        ''Filter by assigned user ID'']"

definition due_date_params :: "json list" where
  "due_date_params =
     [query_param ''due_date_from''
        (OrderedDict [(''type'', JStr ''string''), (''format'', JStr ''date'')])
        ''Filter tasks due from this date'',
      query_param ''due_date_to''
        (OrderedDict [(''type'', JStr ''string''), (''format'', JStr ''date'')])
        ''Filter tasks due until this date'']"

definition contact_params :: "json list" where
  "contact_params =
     [query_param ''relationship'' (OrderedDict [(''type'', JStr ''string'')])
        ''Filter by relationship type'',
      query_param ''is_emergency'' (OrderedDict [(''type'', JStr ''boolean'')])
        ''Filter emergency contacts only'']"

definition notification_params :: "json list" where
  "notification_params =
     [query_param ''is_read'' (OrderedDict [(''type'', JStr ''boolean'')])
        ''Filter by read status'',
      query_param ''notification_type'' (OrderedDict [(''type'', JStr ''string'')])
        ''Filter by notification type'']"

definition created_range_params :: "json list" where
  "created_range_params =
     [query_param ''created_from''
        (OrderedDict [(''type'', JStr ''string''), (''format'', JStr ''date-time'')])
        ''Filter records created from this date/time'',
      query_param ''created_to''
        (OrderedDict [(''type'', JStr ''string''), (''format'', JStr ''date-time'')])
        ''Filter records created until this date/time'']"

definition search_param :: "string \<Rightarrow> nat \<Rightarrow> json" where
  "search_param joined n =
     query_param ''search''
       (OrderedDict [(''type'', JStr ''string''), (''minLength'', JInt 3)])
       (''Global search across text fields: '' @ joined @ (if n > 3 then ''...'' else []))"

text \<open>
  The pagination and sorting parameters. The \<open>sort_by\<close> enumeration is
  \<^verbatim>\<open>[col[0] for col in columns[:10]]\<close>, evaluated after every row has been read at index 0.
\<close>

definition pagination_params :: "row list \<Rightarrow> json list" where
  "pagination_params columns =
     [query_param ''page''
        (OrderedDict [(''type'', JStr ''integer''), (''minimum'', JInt 1), (''default'', JInt 1)])
        ''Page number for pagination'',
      query_param ''limit''
        (OrderedDict
           [(''type'', JStr ''integer''), (''minimum'', JInt 1), (''maximum'', JInt 100),
            (''default'', JInt 20)])
        ''Number of items per page'',
      query_param ''sort_by''
        (OrderedDict
           [(''type'', JStr ''string''),
            (''enum'', JList (map (\<lambda>col. cell_json (col ! 0)) (take 10 columns)))])
        ''Field to sort by'',
      query_param ''sort_order''
        (OrderedDict
           [(''type'', JStr ''string''),
            (''enum'', JList [JStr ''asc'', JStr ''desc'']),
            (''default'', JStr ''asc'')])
        ''Sort order (ascending or descending)'']"

definition table_specific_params :: "string \<Rightarrow> string list \<Rightarrow> json list" where
  "table_specific_params table_name_lower column_names =
     (if contains ''users'' table_name_lower \<or> contains ''user'' table_name_lower then
        user_params @
        (if list_ex (\<lambda>col. contains ''name'' col) column_names then [name_search_param] else [])
      else if contains ''task'' table_name_lower then
        task_params @
        (if list_ex (\<lambda>col. contains ''due'' col) column_names then due_date_params else [])
      else if contains ''contact'' table_name_lower then contact_params
      else if contains ''notification'' table_name_lower then notification_params
      else [])"

definition add_smart_query_params :: "row list \<Rightarrow> string \<Rightarrow> error + json list" where
  "add_smart_query_params columns table_name =
     (if \<not> should_generate_query_params_individual table_name then Inr []
      else
        let table_name_lower = lower table_name in
        case comprehension col_name_lower columns of
          Inl e \<Rightarrow> Inl e
        | Inr column_names \<Rightarrow>
            let parameters1 = table_specific_params table_name_lower column_names;
                parameters2 =
                  parameters1 @
                  (if list_ex (\<lambda>col. contains ''created_at'' col) column_names
                   then created_range_params else [])
            in
            (case text_columns_of columns of
               Inl e \<Rightarrow> Inl e
             | Inr text_columns \<Rightarrow>
                 (if length text_columns > 1 then
                    (case join_comma (take 3 text_columns) of
                       Inl e \<Rightarrow> Inl e
                     | Inr joined \<Rightarrow>
                         Inr (parameters2 @ [search_param joined (length text_columns)] @
                              pagination_params columns))
                  else Inr (parameters2 @ pagination_params columns))))"

text \<open>The value stored under \<^verbatim>\<open>'name'\<close> in each parameter of a sequence.\<close>

definition json_get :: "json \<Rightarrow> string \<Rightarrow> json option" where
  "json_get j k = (case j of JDict d \<Rightarrow> dict_get d (Str k) | _ \<Rightarrow> None)"

definition param_names :: "json list \<Rightarrow> json option list" where
  "param_names ps = map (\<lambda>p. json_get p ''name'') ps"

section \<open>Field Decorator and the column loop\<close>

text \<open>
  \<^verbatim>\<open>d[k1] = v1; d[k2] = v2; ...\<close> with string keys, and Python truthiness for
  \<^verbatim>\<open>d.get('readOnly', False)\<close>.
\<close>

definition dict_sets :: "pydict \<Rightarrow> (string \<times> json) list \<Rightarrow> pydict" where
  "dict_sets d kvs = foldl (\<lambda>d kv. dict_set d (Str (fst kv)) (snd kv)) d kvs"

fun truthy :: "json \<Rightarrow> bool" where
  "truthy (JBool b) = b"
| "truthy JNone = False"
| "truthy (JStr s) = (s \<noteq> [])"
| "truthy (JInt i) = (i \<noteq> 0)"
| "truthy (JList xs) = (xs \<noteq> [])"
| "truthy (JDict d) = (d \<noteq> [])"
| "truthy (JSet xs) = (xs \<noteq> [])"

definition read_only :: "pydict \<Rightarrow> bool" where
  "read_only d = (case dict_get d (Str ''readOnly'') of Some v \<Rightarrow> truthy v | None \<Rightarrow> False)"

text \<open>
  The loop state of both generators: the two schemas under construction, the name of the
  last primary key column seen (\<^verbatim>\<open>None\<close> at the start) and the auto-increment flag.
\<close>

record schemas =
  table_properties :: pydict
  table_required :: "cell list"
  new_properties :: pydict
  new_required :: "cell list"
  primary_key_column :: cell
  has_auto_increment :: bool

definition initial_schemas :: schemas where
  "initial_schemas =
     \<lparr>table_properties = [], table_required = [], new_properties = [], new_required = [],
      primary_key_column = PyNone, has_auto_increment = False\<rparr>"

text \<open>
  The primary key tracking at the head of the loop body, the same in both generators:
  \<^verbatim>\<open>if col_key == 'PRI': primary_key_column = col_name;
     if 'auto_increment' in col_extra.lower(): has_auto_increment = True\<close>.
\<close>

definition track_primary_key :: "schemas \<Rightarrow> cell \<Rightarrow> cell \<Rightarrow> cell \<Rightarrow> error + cell \<times> bool" where
  "track_primary_key st col_key col_name col_extra =
     (if col_key = Str ''PRI'' then
        (case cell_lower col_extra of
           Inl e \<Rightarrow> Inl e
         | Inr extra \<Rightarrow>
             Inr (col_name, has_auto_increment st \<or> contains ''auto_increment'' extra))
      else Inr (primary_key_column st, has_auto_increment st))"

text \<open>The \<^verbatim>\<open>if/elif\<close> chain of \<^verbatim>\<open>create_enhanced_individual_table_spec\<close> on one column.\<close>

definition decorate :: "string \<Rightarrow> cell \<Rightarrow> cell \<Rightarrow> cell \<Rightarrow> pydict \<Rightarrow> error + pydict" where
  "decorate table_name col_key col_name pk openapi_type =
     (if col_key = Str ''PRI'' then
        Inr (dict_sets openapi_type
               [(''readOnly'', JBool True),
                (''description'', JStr (''Primary key for '' @ table_name))])
      else
        case cell_lower col_name of
          Inl e \<Rightarrow> Inl e
        | Inr n \<Rightarrow>
            Inr
             (if contains ''email'' n then
                dict_sets openapi_type
                  [(''format'', JStr ''email''),
                   (''description'', JStr ''Valid email address''),
                   (''example'', JStr ''user@example.com'')]
              else if contains ''phone'' n then
                dict_sets openapi_type
                  [(''pattern'', JStr ''^[+]?[1-9]?[0-9]{7,15}$''),
                   (''description'', JStr ''Phone number (7-15 digits)''),
                   (''example'', JStr ''+1234567890'')]
              else if n = ''priority_level_id'' then
                dict_sets openapi_type
                  [(''minimum'', JInt 1),
                   (''maximum'', JInt 5),
                   (''description'',
                    JStr ''Priority level (1=Low, 2=Medium, 3=High, 4=Urgent, 5=Critical)'')]
              else if n = ''age'' then
                dict_sets openapi_type
                  [(''minimum'', JInt 0),
                   (''maximum'', JInt 150),
                   (''description'', JStr ''Age in years'')]
              else if contains ''status'' n then
                dict_sets openapi_type [(''description'', JStr ''Status identifier'')]
              else if contains ''created_at'' n then
                dict_sets openapi_type
                  [(''description'', JStr ''Record creation timestamp''),
                   (''readOnly'', JBool True)]
              else if contains ''updated_at'' n then
                dict_sets openapi_type
                  [(''description'', JStr ''Last update timestamp''),
                   (''readOnly'', JBool True)]
              else if endswith n ''_id'' \<and> Str n \<noteq> pk then
                dict_sets openapi_type
                  [(''description'', JStr ''Foreign key reference to related entity'')]
              else if contains ''name'' n then
                (let d = dict_sets openapi_type [(''description'', JStr ''Name or title'')] in
                 if dict_get d (Str ''type'') = Some (JStr ''string'') then
                   dict_sets d [(''minLength'', JInt 1), (''maxLength'', JInt 255)]
                 else d)
              else if contains ''description'' n then
                (let d = dict_sets openapi_type [(''description'', JStr ''Detailed description'')] in
                 if dict_get d (Str ''type'') = Some (JStr ''string'') then
                   dict_sets d [(''maxLength'', JInt 1000)]
                 else d)
              else openapi_type))"

text \<open>\<^verbatim>\<open>create_type = openapi_type.copy(); if 'readOnly' in create_type: del create_type['readOnly']\<close>\<close>

definition without_read_only :: "pydict \<Rightarrow> pydict" where
  "without_read_only d = (if dict_has d (Str ''readOnly'') then dict_del d (Str ''readOnly'') else d)"

text \<open>One pass of the column loop of \<^verbatim>\<open>create_enhanced_individual_table_spec\<close>.\<close>

definition process_column :: "string \<Rightarrow> schemas \<Rightarrow> row \<Rightarrow> error + schemas" where
  "process_column table_name st column =
     (if length column < 5 then Inl IndexError
      else
        let col_name = column ! 0;
            col_type = column ! 1;
            is_nullable = (column ! 2 = Str ''YES'');
            col_key = column ! 3;
            col_extra = (if length column > 5 then column ! 5 else Str [])
        in
        case track_primary_key st col_key col_name col_extra of
          Inl e \<Rightarrow> Inl e
        | Inr (pk, auto) \<Rightarrow>
            (case col_type of
               PyNone \<Rightarrow> Inl AttributeError
             | Str ty \<Rightarrow>
                 (case decorate table_name col_key col_name pk (mysql_type_to_openapi_type ty) of
                    Inl e \<Rightarrow> Inl e
                  | Inr openapi_type \<Rightarrow>
                      let in_create =
                            (\<not> (col_key = Str ''PRI'' \<and> auto) \<and> \<not> read_only openapi_type)
                      in
                      Inr \<lparr>table_properties =
                             dict_set (table_properties st) col_name (JDict openapi_type),
                           table_required =
                             (if \<not> is_nullable then table_required st @ [col_name]
                              else table_required st),
                           new_properties =
                             (if in_create then
                                dict_set (new_properties st) col_name
                                  (JDict (without_read_only openapi_type))
                              else new_properties st),
                           new_required =
                             (if in_create \<and> \<not> is_nullable \<and> col_key \<noteq> Str ''PRI''
                              then new_required st @ [col_name]
                              else new_required st),
                           primary_key_column = pk,
                           has_auto_increment = auto\<rparr>)))"

text \<open>The description chain of \<^verbatim>\<open>export_mysql_to_openapi_yaml\<close> on one column.\<close>

definition decorate_basic :: "cell \<Rightarrow> cell \<Rightarrow> pydict \<Rightarrow> error + pydict" where
  "decorate_basic col_key col_name openapi_type0 =
     (let openapi_type =
            (if col_key = Str ''PRI'' then dict_sets openapi_type0 [(''readOnly'', JBool True)]
             else openapi_type0)
      in
      case cell_lower col_name of
        Inl e \<Rightarrow> Inl e
      | Inr n \<Rightarrow>
          Inr
           (if contains ''email'' n then
              dict_sets openapi_type [(''description'', JStr ''Email address'')]
            else if contains ''phone'' n then
              dict_sets openapi_type [(''description'', JStr ''Phone number'')]
            else if contains ''date'' n then
              dict_sets openapi_type [(''description'', JStr ''Date value'')]
            else if endswith n ''_id'' then
              dict_sets openapi_type [(''description'', JStr ''Foreign key reference'')]
            else openapi_type))"

text \<open>One pass of the column loop of \<^verbatim>\<open>export_mysql_to_openapi_yaml\<close>.\<close>

definition process_column_basic :: "schemas \<Rightarrow> row \<Rightarrow> error + schemas" where
  "process_column_basic st column =
     (if length column < 5 then Inl IndexError
      else
        let col_name = column ! 0;
            col_type = column ! 1;
            is_nullable = (column ! 2 = Str ''YES'');
            col_key = column ! 3;
            col_extra = (if length column > 5 then column ! 5 else Str [])
        in
        case track_primary_key st col_key col_name col_extra of
          Inl e \<Rightarrow> Inl e
        | Inr (pk, auto) \<Rightarrow>
            (case col_type of
               PyNone \<Rightarrow> Inl AttributeError
             | Str ty \<Rightarrow>
                 (case decorate_basic col_key col_name (mysql_type_to_openapi_type_basic ty) of
                    Inl e \<Rightarrow> Inl e
                  | Inr openapi_type \<Rightarrow>
                      let in_new = (\<not> (col_key = Str ''PRI'' \<and> auto)) in
                      Inr \<lparr>table_properties =
                             dict_set (table_properties st) col_name (JDict openapi_type),
                           table_required =
                             (if \<not> is_nullable then table_required st @ [col_name]
                              else table_required st),
                           new_properties =
                             (if in_new then
                                dict_set (new_properties st) col_name
                                  (JDict (without_read_only openapi_type))
                              else new_properties st),
                           new_required =
                             (if in_new \<and> \<not> is_nullable \<and> col_key \<noteq> Str ''PRI''
                              then new_required st @ [col_name]
                              else new_required st),
                           primary_key_column = pk,
                           has_auto_increment = auto\<rparr>)))"

text \<open>\<^verbatim>\<open>for column in columns: ...\<close>: an exception in the body ends the loop.\<close>

fun for_each :: "('s \<Rightarrow> 'a \<Rightarrow> error + 's) \<Rightarrow> 's \<Rightarrow> 'a list \<Rightarrow> error + 's" where
  "for_each body st [] = Inr st"
| "for_each body st (x # xs) =
     (case body st x of Inl e \<Rightarrow> Inl e | Inr st' \<Rightarrow> for_each body st' xs)"

definition build_schemas :: "string \<Rightarrow> row list \<Rightarrow> error + schemas" where
  "build_schemas table_name columns = for_each (process_column table_name) initial_schemas columns"

definition build_schemas_basic :: "row list \<Rightarrow> error + schemas" where
  "build_schemas_basic columns = for_each process_column_basic initial_schemas columns"

text \<open>The keys of a dictionary, and the key role and auto-increment marker of a row.\<close>

definition dict_keys :: "pydict \<Rightarrow> cell list" where
  "dict_keys d = map fst d"

definition is_primary :: "row \<Rightarrow> bool" where
  "is_primary column = (column ! 3 = Str ''PRI'')"

definition is_auto_increment :: "row \<Rightarrow> bool" where
  "is_auto_increment column =
     (case (if length column > 5 then column ! 5 else Str []) of
        Str extra \<Rightarrow> contains ''auto_increment'' (lower extra)
      | PyNone \<Rightarrow> False)"

section \<open>Resource Document Assembler: the per-table document\<close>

text \<open>\<^verbatim>\<open>{'$ref': '#/components/schemas/<name>'}\<close> and \<^verbatim>\<open>{'$ref': '#/components/responses/<name>'}\<close>.\<close>

definition schema_ref :: "string \<Rightarrow> json" where
  "schema_ref name = OrderedDict [(''$ref'', JStr (''#/components/schemas/'' @ name))]"

definition response_ref :: "string \<Rightarrow> json" where
  "response_ref name = OrderedDict [(''$ref'', JStr (''#/components/responses/'' @ name))]"

text \<open>An object schema: \<^verbatim>\<open>OrderedDict([('type', 'object'), ('properties', ...), ('required', ...)])\<close>.\<close>

definition object_schema :: "pydict \<Rightarrow> cell list \<Rightarrow> json" where
  "object_schema properties required =
     OrderedDict
       [(''type'', JStr ''object''),
        (''properties'', JDict properties),
        (''required'', JList (map cell_json required))]"

definition typed :: "string \<Rightarrow> (string \<times> json) list \<Rightarrow> json" where
  "typed ty rest = OrderedDict ((''type'', JStr ty) # rest)"

definition json_content :: "json \<Rightarrow> json" where
  "json_content schema =
     OrderedDict [(''application/json'', OrderedDict [(''schema'', schema)])]"

definition info_block :: "string \<Rightarrow> json" where
  "info_block table_name =
     OrderedDict
       [(''title'', JStr (schema_name table_name @ '' Management API'')),
        (''description'',
         JStr (''Individual microservice API for managing '' @ table_name @
               '' in the Seniorcare ecosystem. Provides comprehensive CRUD operations with intelligent search, filtering, and validation.'')),
        (''version'', JStr ''2.1.0''),
        (''contact'',
         OrderedDict
           [(''name'', JStr (schema_name table_name @ '' API Support'')),
            (''email'', JStr (table_name @ ''-api@seniorcare.com'')),
            (''url'', JStr (''https://docs.seniorcare.com/apis/'' @ table_name))]),
        (''license'',
         OrderedDict
           [(''name'', JStr ''MIT''),
            (''url'', JStr ''https://opensource.org/licenses/MIT'')])]"

definition servers_block :: "string \<Rightarrow> json" where
  "servers_block table_name =
     JList
       [OrderedDict
          [(''url'', JStr (''https://api.seniorcare.com/v1/'' @ table_name)),
           (''description'', JStr (''Production '' @ table_name @ '' service''))],
        OrderedDict
          [(''url'', JStr (''https://staging-api.seniorcare.com/v1/'' @ table_name)),
           (''description'', JStr (''Staging '' @ table_name @ '' service''))],
        OrderedDict
          [(''url'', JStr (''http://localhost:8080/v1/'' @ table_name)),
           (''description'', JStr (''Local development '' @ table_name @ '' service''))]]"

definition pagination_meta :: json where
  "pagination_meta =
     OrderedDict
       [(''type'', JStr ''object''),
        (''properties'',
         OrderedDict
           [(''page'', typed ''integer'' [(''description'', JStr ''Current page number'')]),
            (''limit'', typed ''integer'' [(''description'', JStr ''Items per page'')]),
            (''total'', typed ''integer'' [(''description'', JStr ''Total number of items'')]),
            (''pages'', typed ''integer'' [(''description'', JStr ''Total number of pages'')]),
            (''has_next'',
             typed ''boolean'' [(''description'', JStr ''Whether there is a next page'')]),
            (''has_prev'',
             typed ''boolean'' [(''description'', JStr ''Whether there is a previous page'')])]),
        (''required'', JList [JStr ''page'', JStr ''limit'', JStr ''total'', JStr ''pages''])]"

definition validation_error_response :: json where
  "validation_error_response =
     OrderedDict
       [(''description'', JStr ''Validation error with detailed field-level errors''),
        (''content'',
         json_content
           (OrderedDict
              [(''type'', JStr ''object''),
               (''properties'',
                OrderedDict
                  [(''error'', typed ''string'' [(''example'', JStr ''Validation failed'')]),
                   (''code'', typed ''string'' [(''example'', JStr ''VALIDATION_ERROR'')]),
                   (''details'',
                    typed ''array''
                      [(''items'',
                        typed ''object''
                          [(''properties'',
                            OrderedDict
                              [(''field'', typed ''string'' []),
                               (''message'', typed ''string'' []),
                               (''code'', typed ''string'' [])])])])]),
               (''required'', JList [JStr ''error'', JStr ''code''])]))]"

definition not_found_response :: "string \<Rightarrow> json" where
  "not_found_response table_name =
     OrderedDict
       [(''description'', JStr ''Resource not found''),
        (''content'',
         json_content
           (OrderedDict
              [(''type'', JStr ''object''),
               (''properties'',
                OrderedDict
                  [(''error'',
                    typed ''string''
                      [(''example'', JStr (capitalize (resource_name table_name) @ '' not found''))]),
                   (''code'', typed ''string'' [(''example'', JStr ''NOT_FOUND'')])]),
               (''required'', JList [JStr ''error'', JStr ''code''])]))]"

definition conflict_response :: json where
  "conflict_response =
     OrderedDict
       [(''description'', JStr ''Resource conflict (duplicate, constraint violation)''),
        (''content'',
         json_content
           (OrderedDict
              [(''type'', JStr ''object''),
               (''properties'',
                OrderedDict
                  [(''error'', typed ''string'' [(''example'', JStr ''Resource already exists'')]),
                   (''code'', typed ''string'' [(''example'', JStr ''CONFLICT'')])])]))]"

text \<open>
  The three schemas of the table and \<open>PaginationMeta\<close>. The update schema takes a copy of
  the properties of the create schema and an empty required list.
\<close>

definition update_table_schema :: "schemas \<Rightarrow> json" where
  "update_table_schema st = object_schema (new_properties st) []"

definition schemas_block :: "string \<Rightarrow> schemas \<Rightarrow> json" where
  "schemas_block table_name st =
     OrderedDict
       [(schema_name table_name, object_schema (table_properties st) (table_required st)),
        (new_schema_name table_name, object_schema (new_properties st) (new_required st)),
        (update_schema_name table_name, update_table_schema st),
        (''PaginationMeta'', pagination_meta)]"

definition responses_block :: "string \<Rightarrow> json" where
  "responses_block table_name =
     OrderedDict
       [(''ValidationError'', validation_error_response),
        (''NotFound'', not_found_response table_name),
        (''Conflict'', conflict_response)]"

definition components_block :: "string \<Rightarrow> schemas \<Rightarrow> json" where
  "components_block table_name st =
     OrderedDict
       [(''schemas'', schemas_block table_name st),
        (''responses'', responses_block table_name)]"

text \<open>\<^verbatim>\<open>d[k] = v\<close> on a dictionary value.\<close>

definition json_set :: "json \<Rightarrow> string \<Rightarrow> json \<Rightarrow> json" where
  "json_set j k v = (case j of JDict d \<Rightarrow> JDict (dict_set d (Str k) v) | _ \<Rightarrow> j)"

text \<open>The collection path \<^verbatim>\<open>/\<close>: list and create.\<close>

definition get_endpoint :: "string \<Rightarrow> json list \<Rightarrow> json" where
  "get_endpoint table_name query_params =
     (let endpoint =
        OrderedDict
          [(''summary'', JStr (''List all '' @ table_name)),
           (''description'',
            JStr (''Retrieve a paginated list of '' @ table_name @
                  '' with advanced filtering, search, and sorting capabilities'')),
           (''operationId'', JStr (''list'' @ schema_name table_name)),
           (''tags'', JList [JStr (capitalize table_name)]),
           (''responses'',
            OrderedDict
              [(''200'',
                OrderedDict
                  [(''description'', JStr (''Successfully retrieved list of '' @ table_name)),
                   (''content'',
                    json_content
                      (OrderedDict
                         [(''type'', JStr ''object''),
                          (''properties'',
                           OrderedDict
                             [(''data'',
                               typed ''array'' [(''items'', schema_ref (schema_name table_name))]),
                              (''meta'', schema_ref ''PaginationMeta'')]),
                          (''required'', JList [JStr ''data'', JStr ''meta''])]))]),
               (''400'', response_ref ''ValidationError'')])]
      in if query_params \<noteq> [] then json_set endpoint ''parameters'' (JList query_params)
         else endpoint)"

definition request_body :: "string \<Rightarrow> json" where
  "request_body schema =
     OrderedDict
       [(''required'', JBool True),
        (''content'', json_content (schema_ref schema))]"

definition ok_response :: "string \<Rightarrow> string \<Rightarrow> json" where
  "ok_response description schema =
     OrderedDict
       [(''description'', JStr description),
        (''content'', json_content (schema_ref schema))]"

definition post_endpoint :: "string \<Rightarrow> json" where
  "post_endpoint table_name =
     OrderedDict
       [(''summary'', JStr (''Create new '' @ resource_name table_name)),
        (''description'',
         JStr (''Create a new '' @ resource_name table_name @
               '' record with comprehensive validation'')),
        (''operationId'', JStr (''create'' @ schema_singular table_name)),
        (''tags'', JList [JStr (capitalize table_name)]),
        (''requestBody'', request_body (new_schema_name table_name)),
        (''responses'',
         OrderedDict
           [(''201'',
             ok_response (capitalize (resource_name table_name) @ '' created successfully'')
               (schema_name table_name)),
            (''400'', response_ref ''ValidationError''),
            (''409'', response_ref ''Conflict'')])]"

definition collection_path :: "string \<Rightarrow> json list \<Rightarrow> json" where
  "collection_path table_name query_params =
     OrderedDict
       [(''get'', get_endpoint table_name query_params),
        (''post'', post_endpoint table_name)]"

text \<open>
  The type of the path parameter:
  \<^verbatim>\<open>'integer' if 'int' in [col[1].lower() for col in columns if col[0] == primary_key_column][0] else 'string'\<close>.
\<close>

definition pk_type_of :: "row list \<Rightarrow> cell \<Rightarrow> error + string" where
  "pk_type_of columns pk =
     (case comprehension
             (\<lambda>col. case row_get col 1 of Inl e \<Rightarrow> Inl e | Inr c \<Rightarrow> cell_lower c)
             (filter (\<lambda>col. row_get col 0 = Inr pk) columns) of
        Inl e \<Rightarrow> Inl e
      | Inr [] \<Rightarrow> Inl IndexError
      | Inr (ty # _) \<Rightarrow> Inr (if contains ''int'' ty then ''integer'' else ''string''))"

definition pk_schema :: "string \<Rightarrow> json" where
  "pk_schema pk_type =
     (if pk_type = ''integer'' then
        OrderedDict [(''type'', JStr pk_type), (''format'', JStr ''int64''), (''minimum'', JInt 1)]
      else OrderedDict [(''type'', JStr pk_type)])"

definition pk_parameter :: "string \<Rightarrow> string \<Rightarrow> string \<Rightarrow> json" where
  "pk_parameter table_name pk pk_type =
     JList
       [OrderedDict
          [(''name'', JStr pk),
           (''in'', JStr ''path''),
           (''required'', JBool True),
           (''schema'', pk_schema pk_type),
           (''description'',
            JStr (''The unique identifier of the '' @ resource_name table_name))]]"

text \<open>The item path \<^verbatim>\<open>/{<primary key>}\<close>: get, put, patch and delete.\<close>

definition item_get :: "string \<Rightarrow> string \<Rightarrow> string \<Rightarrow> json" where
  "item_get table_name pk pk_type =
     OrderedDict
       [(''summary'', JStr (''Get '' @ resource_name table_name @ '' by ID'')),
        (''description'',
         JStr (''Retrieve a specific '' @ resource_name table_name @ '' by its identifier'')),
        (''operationId'', JStr (''get'' @ schema_singular table_name @ ''ById'')),
        (''tags'', JList [JStr (capitalize table_name)]),
        (''parameters'', pk_parameter table_name pk pk_type),
        (''responses'',
         OrderedDict
           [(''200'',
             ok_response (capitalize (resource_name table_name) @ '' found'')
               (schema_name table_name)),
            (''404'', response_ref ''NotFound'')])]"

definition item_put :: "string \<Rightarrow> string \<Rightarrow> string \<Rightarrow> json" where
  "item_put table_name pk pk_type =
     OrderedDict
       [(''summary'', JStr (''Update '' @ resource_name table_name @ '' (full replace)'')),
        (''description'',
         JStr (''Completely replace an existing '' @ resource_name table_name @
               '' with new data'')),
        (''operationId'', JStr (''update'' @ schema_singular table_name)),
        (''tags'', JList [JStr (capitalize table_name)]),
        (''parameters'', pk_parameter table_name pk pk_type),
        (''requestBody'', request_body (new_schema_name table_name)),
        (''responses'',
         OrderedDict
           [(''200'',
             ok_response (capitalize (resource_name table_name) @ '' updated successfully'')
               (schema_name table_name)),
            (''404'', response_ref ''NotFound''),
            (''400'', response_ref ''ValidationError'')])]"

definition item_patch :: "string \<Rightarrow> string \<Rightarrow> string \<Rightarrow> json" where
  "item_patch table_name pk pk_type =
     OrderedDict
       [(''summary'', JStr (''Partially update '' @ resource_name table_name)),
        (''description'',
         JStr (''Update specific fields of an existing '' @ resource_name table_name)),
        (''operationId'', JStr (''patch'' @ schema_singular table_name)),
        (''tags'', JList [JStr (capitalize table_name)]),
        (''parameters'', pk_parameter table_name pk pk_type),
        (''requestBody'', request_body (update_schema_name table_name)),
        (''responses'',
         OrderedDict
           [(''200'',
             ok_response
               (capitalize (resource_name table_name) @ '' partially updated successfully'')
               (schema_name table_name)),
            (''404'', response_ref ''NotFound''),
            (''400'', response_ref ''ValidationError'')])]"

definition item_delete :: "string \<Rightarrow> string \<Rightarrow> string \<Rightarrow> json" where
  "item_delete table_name pk pk_type =
     OrderedDict
       [(''summary'', JStr (''Delete '' @ resource_name table_name)),
        (''description'',
         JStr (''Permanently delete a '' @ resource_name table_name @ '' from the system'')),
        (''operationId'', JStr (''delete'' @ schema_singular table_name)),
        (''tags'', JList [JStr (capitalize table_name)]),
        (''parameters'', pk_parameter table_name pk pk_type),
        (''responses'',
         OrderedDict
           [(''204'',
             OrderedDict
               [(''description'',
                 JStr (capitalize (resource_name table_name) @ '' deleted successfully''))]),
            (''404'', response_ref ''NotFound'')])]"

definition item_path :: "string \<Rightarrow> string \<Rightarrow> string \<Rightarrow> json" where
  "item_path table_name pk pk_type =
     OrderedDict
       [(''get'', item_get table_name pk pk_type),
        (''put'', item_put table_name pk pk_type),
        (''patch'', item_patch table_name pk pk_type),
        (''delete'', item_delete table_name pk pk_type)]"

text \<open>
  The whole document. \<^verbatim>\<open>if primary_key_column:\<close> holds for a non-empty string only; the
  item path is stored under \<^verbatim>\<open>'/{' + primary_key_column + '}'\<close>.
\<close>

definition openapi_document :: "string \<Rightarrow> schemas \<Rightarrow> (string \<times> json) list \<Rightarrow> json" where
  "openapi_document table_name st paths =
     OrderedDict
       [(''openapi'', JStr ''3.1.0''),
        (''info'', info_block table_name),
        (''servers'', servers_block table_name),
        (''paths'', OrderedDict paths),
        (''components'', components_block table_name st)]"

definition create_enhanced_individual_table_spec :: "string \<Rightarrow> row list \<Rightarrow> error + json" where
  "create_enhanced_individual_table_spec table_name columns =
     (case build_schemas table_name columns of
        Inl e \<Rightarrow> Inl e
      | Inr st \<Rightarrow>
          (case add_smart_query_params columns table_name of
             Inl e \<Rightarrow> Inl e
           | Inr query_params \<Rightarrow>
               (case primary_key_column st of
                  PyNone \<Rightarrow>
                    Inr (openapi_document table_name st
                           [(''/'', collection_path table_name query_params)])
                | Str pk \<Rightarrow>
                    if pk = [] then
                      Inr (openapi_document table_name st
                             [(''/'', collection_path table_name query_params)])
                    else
                      (case pk_type_of columns (Str pk) of
                         Inl e \<Rightarrow> Inl e
                       | Inr pk_type \<Rightarrow>
                           Inr (openapi_document table_name st
                                  [(''/'', collection_path table_name query_params),
                                   (''/{'' @ pk @ ''}'', item_path table_name pk pk_type)])))))"

text \<open>Navigation in a document, the \<^verbatim>\<open>$ref\<close> strings it holds, and their resolution.\<close>

fun json_path :: "json \<Rightarrow> string list \<Rightarrow> json option" where
  "json_path j [] = Some j"
| "json_path j (k # ks) =
     (case json_get j k of None \<Rightarrow> None | Some j' \<Rightarrow> json_path j' ks)"

definition json_keys :: "json option \<Rightarrow> cell list" where
  "json_keys j = (case j of Some (JDict d) \<Rightarrow> dict_keys d | _ \<Rightarrow> [])"

definition direct_ref :: "cell \<Rightarrow> json \<Rightarrow> string list" where
  "direct_ref k v =
     (case k of
        Str r \<Rightarrow> (if r = ''$ref'' then (case v of JStr s \<Rightarrow> [s] | _ \<Rightarrow> []) else [])
      | PyNone \<Rightarrow> [])"

fun refs_of :: "json \<Rightarrow> string list"
  and refs_of_list :: "json list \<Rightarrow> string list"
  and refs_of_items :: "(cell \<times> json) list \<Rightarrow> string list" where
  "refs_of (JStr s) = []"
| "refs_of (JInt i) = []"
| "refs_of (JBool b) = []"
| "refs_of JNone = []"
| "refs_of (JList xs) = refs_of_list xs"
| "refs_of (JDict kvs) = refs_of_items kvs"
| "refs_of (JSet xs) = refs_of_list xs"
| "refs_of_list [] = []"
| "refs_of_list (x # xs) = refs_of x @ refs_of_list xs"
| "refs_of_items [] = []"
| "refs_of_items (kv # kvs) = direct_ref (fst kv) (snd kv) @ refs_of (snd kv) @ refs_of_items kvs"

definition resolves :: "json \<Rightarrow> string \<Rightarrow> bool" where
  "resolves doc r =
     (if prefix ''#/components/schemas/'' r then
        Str (drop (length ''#/components/schemas/'') r)
          \<in> set (json_keys (json_path doc [''components'', ''schemas'']))
      else if prefix ''#/components/responses/'' r then
        Str (drop (length ''#/components/responses/'') r)
          \<in> set (json_keys (json_path doc [''components'', ''responses'']))
      else False)"

section \<open>The single-document generator: one table\<close>

text \<open>
  \<^verbatim>\<open>export_mysql_to_openapi_yaml\<close> keeps one document for all tables. Its state between
  two tables is the path map, the schema map of \<^verbatim>\<open>components\<close> and the list of the tables
  processed so far.
\<close>

record openapi_state =
  spec_paths :: pydict
  spec_schemas :: pydict
  processed_tables :: "string list"

definition initial_state :: openapi_state where
  "initial_state = \<lparr>spec_paths = [], spec_schemas = [], processed_tables = []\<rparr>"

definition described :: "string \<Rightarrow> json" where
  "described d = OrderedDict [(''description'', JStr d)]"

definition limit_offset_params :: "json list" where
  "limit_offset_params =
     [OrderedDict
        [(''in'', JStr ''query''),
         (''name'', JStr ''limit''),
         (''schema'',
          OrderedDict
            [(''type'', JStr ''integer''), (''minimum'', JInt 1), (''maximum'', JInt 1000),
             (''default'', JInt 100)]),
         (''description'', JStr ''Maximum number of results to return'')],
      OrderedDict
        [(''in'', JStr ''query''),
         (''name'', JStr ''offset''),
         (''schema'',
          OrderedDict [(''type'', JStr ''integer''), (''minimum'', JInt 0), (''default'', JInt 0)]),
         (''description'', JStr ''Number of results to skip'')]]"

definition get_endpoint_basic :: "string \<Rightarrow> json" where
  "get_endpoint_basic table_name =
     OrderedDict
       [(''summary'', JStr (''Get all '' @ table_name)),
        (''description'', JStr (''Retrieves a list of all '' @ table_name @ ''.'')),
        (''parameters'', JList limit_offset_params),
        (''responses'',
         OrderedDict
           [(''200'',
             OrderedDict
               [(''description'', JStr (''A list of '' @ table_name @ ''.'')),
                (''content'',
                 json_content
                   (OrderedDict
                      [(''type'', JStr ''object''),
                       (''properties'',
                        OrderedDict
                          [(''data'',
                            typed ''array'' [(''items'', schema_ref (schema_name table_name))]),
                           (''total'',
                            typed ''integer'' [(''description'', JStr ''Total number of records'')]),
                           (''limit'',
                            typed ''integer'' [(''description'', JStr ''Applied limit'')]),
                           (''offset'',
                            typed ''integer'' [(''description'', JStr ''Applied offset'')])])]))]),
            (''400'', described ''Invalid query parameters.'')])]"

definition post_endpoint_basic :: "string \<Rightarrow> json" where
  "post_endpoint_basic table_name =
     OrderedDict
       [(''summary'', JStr (''Create a new '' @ resource_name table_name)),
        (''description'', JStr (''Adds a new '' @ resource_name table_name @ '' to the system.'')),
        (''requestBody'', request_body (new_schema_name_basic table_name)),
        (''responses'',
         OrderedDict
           [(''201'',
             ok_response (capitalize (resource_name table_name) @ '' created successfully.'')
               (schema_name table_name)),
            (''400'', described ''Invalid input data.''),
            (''409'', described ''Resource already exists.'')])]"

definition collection_path_basic :: "string \<Rightarrow> json" where
  "collection_path_basic table_name =
     OrderedDict
       [(''get'', get_endpoint_basic table_name),
        (''post'', post_endpoint_basic table_name)]"

text \<open>
  \<^verbatim>\<open>pk_format = 'int64' if pk_type == 'integer' else None\<close>; the format is stored when it is
  not \<^verbatim>\<open>None\<close>.
\<close>

definition pk_schema_basic :: "string \<Rightarrow> json" where
  "pk_schema_basic pk_type =
     (if pk_type = ''integer'' then
        OrderedDict [(''type'', JStr pk_type), (''format'', JStr ''int64'')]
      else OrderedDict [(''type'', JStr pk_type)])"

definition pk_parameter_basic :: "string \<Rightarrow> string \<Rightarrow> string \<Rightarrow> string \<Rightarrow> json" where
  "pk_parameter_basic table_name pk pk_type purpose =
     JList
       [OrderedDict
          [(''in'', JStr ''path''),
           (''name'', JStr pk),
           (''required'', JBool True),
           (''schema'', pk_schema_basic pk_type),
           (''description'',
            JStr (''The '' @ pk @ '' of the '' @ resource_name table_name @ '' to '' @ purpose
                  @ ''.''))]]"

definition not_found_basic :: "string \<Rightarrow> json" where
  "not_found_basic table_name = described (capitalize (resource_name table_name) @ '' not found.'')"

definition item_get_basic :: "string \<Rightarrow> string \<Rightarrow> string \<Rightarrow> json" where
  "item_get_basic table_name pk pk_type =
     OrderedDict
       [(''summary'', JStr (''Get '' @ resource_name table_name @ '' by '' @ pk)),
        (''description'',
         JStr (''Retrieves a single '' @ resource_name table_name @ '' by their '' @ pk @ ''.'')),
        (''parameters'', pk_parameter_basic table_name pk pk_type ''retrieve''),
        (''responses'',
         OrderedDict
           [(''200'',
             ok_response (capitalize (resource_name table_name) @ '' found.'')
               (schema_name table_name)),
            (''404'', not_found_basic table_name)])]"

definition item_put_basic :: "string \<Rightarrow> string \<Rightarrow> string \<Rightarrow> json" where
  "item_put_basic table_name pk pk_type =
     OrderedDict
       [(''summary'', JStr (''Update '' @ resource_name table_name @ '' by '' @ pk)),
        (''description'', JStr (''Updates an existing '' @ resource_name table_name @ ''.'')),
        (''parameters'', pk_parameter_basic table_name pk pk_type ''update''),
        (''requestBody'', request_body (new_schema_name_basic table_name)),
        (''responses'',
         OrderedDict
           [(''200'',
             ok_response (capitalize (resource_name table_name) @ '' updated successfully.'')
               (schema_name table_name)),
            (''400'', described ''Invalid input data.''),
            (''404'', not_found_basic table_name)])]"

definition item_delete_basic :: "string \<Rightarrow> string \<Rightarrow> string \<Rightarrow> json" where
  "item_delete_basic table_name pk pk_type =
     OrderedDict
       [(''summary'', JStr (''Delete '' @ resource_name table_name @ '' by '' @ pk)),
        (''description'',
         JStr (''Deletes a '' @ resource_name table_name @ '' from the system.'')),
        (''parameters'', pk_parameter_basic table_name pk pk_type ''delete''),
        (''responses'',
         OrderedDict
           [(''204'',
             described (capitalize (resource_name table_name) @ '' deleted successfully.'')),
            (''404'', not_found_basic table_name)])]"

definition item_path_basic :: "string \<Rightarrow> string \<Rightarrow> string \<Rightarrow> json" where
  "item_path_basic table_name pk pk_type =
     OrderedDict
       [(''get'', item_get_basic table_name pk pk_type),
        (''put'', item_put_basic table_name pk pk_type),
        (''delete'', item_delete_basic table_name pk pk_type)]"

text \<open>
  The body of the \<^verbatim>\<open>try\<close> of the table loop, in the order of the statements: the two
  schemas are stored, then the collection path, then (for a primary key with a non-empty
  name) the item path, and last the table is appended to \<^verbatim>\<open>processed_tables\<close>. An
  exception leaves the body with the state as it is at that moment; it is returned next to
  the state, as the \<^verbatim>\<open>except\<close> clause only prints it. \<^verbatim>\<open>DESCRIBE\<close> is the
  collaborator \<open>describe\<close>; a table without columns is skipped.
\<close>

definition store_schemas_basic :: "string \<Rightarrow> schemas \<Rightarrow> openapi_state \<Rightarrow> openapi_state" where
  "store_schemas_basic table_name s st =
     st\<lparr>spec_schemas :=
          dict_set
            (dict_set (spec_schemas st) (Str (schema_name table_name))
               (object_schema (table_properties s) (table_required s)))
            (Str (new_schema_name_basic table_name))
            (object_schema (new_properties s) (new_required s))\<rparr>"

definition store_collection_basic :: "string \<Rightarrow> openapi_state \<Rightarrow> openapi_state" where
  "store_collection_basic table_name st =
     st\<lparr>spec_paths :=
          dict_set (spec_paths st) (Str (''/'' @ table_name)) (collection_path_basic table_name)\<rparr>"

definition store_item_basic :: "string \<Rightarrow> string \<Rightarrow> string \<Rightarrow> openapi_state \<Rightarrow> openapi_state" where
  "store_item_basic table_name pk pk_type st =
     st\<lparr>spec_paths :=
          dict_set (spec_paths st) (Str (''/'' @ table_name @ ''/{'' @ pk @ ''}''))
            (item_path_basic table_name pk pk_type)\<rparr>"

definition mark_processed :: "string \<Rightarrow> openapi_state \<Rightarrow> openapi_state" where
  "mark_processed table_name st = st\<lparr>processed_tables := processed_tables st @ [table_name]\<rparr>"

definition process_table_basic ::
  "(string \<Rightarrow> error + row list) \<Rightarrow> openapi_state \<Rightarrow> string \<Rightarrow> openapi_state \<times> error option" where
  "process_table_basic describe st table_name =
     (case describe table_name of
        Inl e \<Rightarrow> (st, Some e)
      | Inr columns \<Rightarrow>
          if columns = [] then (st, None)
          else
            (case build_schemas_basic columns of
               Inl e \<Rightarrow> (st, Some e)
             | Inr s \<Rightarrow>
                 let st1 = store_collection_basic table_name (store_schemas_basic table_name s st)
                 in
                 (case primary_key_column s of
                    PyNone \<Rightarrow> (mark_processed table_name st1, None)
                  | Str pk \<Rightarrow>
                      if pk = [] then (mark_processed table_name st1, None)
                      else
                        (case pk_type_of columns (Str pk) of
                           Inl e \<Rightarrow> (st1, Some e)
                         | Inr pk_type \<Rightarrow>
                             (mark_processed table_name
                                (store_item_basic table_name pk pk_type st1), None)))))"

section \<open>The single-document generator: the run\<close>

definition info_block_basic :: json where
  "info_block_basic =
     OrderedDict
       [(''title'', JStr ''Seniorcare Management API''),
        (''description'', JStr ''A comprehensive API for managing Seniorcare resources.''),
        (''version'', JStr ''1.0.0'')]"

definition servers_block_basic :: json where
  "servers_block_basic =
     JList
       [OrderedDict
          [(''url'', JStr ''https://api.seniorcare.com/v1''),
           (''description'', JStr ''Production server'')],
        OrderedDict
          [(''url'', JStr ''http://localhost:8080/v1''),
           (''description'', JStr ''Local development server'')]]"

definition error_schema :: json where
  "error_schema =
     OrderedDict
       [(''type'', JStr ''object''),
        (''properties'',
         OrderedDict
           [(''error'', typed ''string'' [(''description'', JStr ''Error message'')]),
            (''code'', typed ''integer'' [(''description'', JStr ''Error code'')]),
            (''details'', typed ''object'' [(''description'', JStr ''Additional error details'')])]),
        (''required'', JList [JStr ''error'', JStr ''code''])]"

definition openapi_spec_basic :: "openapi_state \<Rightarrow> json" where
  "openapi_spec_basic st =
     OrderedDict
       [(''openapi'', JStr ''3.1.0''),
        (''info'', info_block_basic),
        (''servers'', servers_block_basic),
        (''paths'', JDict (spec_paths st)),
        (''components'', OrderedDict [(''schemas'', JDict (spec_schemas st))])]"

text \<open>
  \<^verbatim>\<open>for table_name in valid_tables: try: ... except Exception: continue\<close>: the state after
  the loop, and the errors caught on the way.
\<close>

definition run_tables_basic ::
  "(string \<Rightarrow> error + row list) \<Rightarrow> openapi_state \<Rightarrow> string list \<Rightarrow> openapi_state" where
  "run_tables_basic describe st tables =
     foldl (\<lambda>st table_name. fst (process_table_basic describe st table_name)) st tables"

text \<open>
  \<^verbatim>\<open>export_mysql_to_openapi_yaml\<close> from the list of valid tables on. With no valid table,
  or with no table processed, it returns without writing. Otherwise the \<^verbatim>\<open>Error\<close> schema
  is stored and \<^verbatim>\<open>exports/openapi_specs/seniorcare_api3.0.yaml\<close> is opened for writing;
  opening it is the collaborator \<open>writable\<close>. The directory the function creates before
  the loop is \<^verbatim>\<open>openapi_specs\<close>, which is not the directory of that file, so nothing in
  the function makes the file writable. An \<^verbatim>\<open>open\<close> that raises leaves the function
  through its outer \<^verbatim>\<open>except\<close> clause: the run has failed, whatever was processed.
\<close>

definition export_mysql_to_openapi_yaml ::
  "(string \<Rightarrow> error + row list) \<Rightarrow> (string \<Rightarrow> bool) \<Rightarrow> string list
     \<Rightarrow> error + json option" where
  "export_mysql_to_openapi_yaml describe writable valid_tables =
     (if valid_tables = [] then Inr None
      else
        let st = run_tables_basic describe initial_state valid_tables in
        if processed_tables st = [] then Inr None
        else
          let openapi_spec =
                openapi_spec_basic
                  (st\<lparr>spec_schemas := dict_set (spec_schemas st) (Str ''Error'') error_schema\<rparr>);
              output_file = ''exports/openapi_specs/seniorcare_api3.0.yaml''
          in
          if \<not> writable output_file then Inl IOError else Inr (Some openapi_spec))"

section \<open>The per-table generator: the run\<close>

text \<open>
  The state of \<^verbatim>\<open>export_enhanced_individual_openapi_specs\<close> between two tables: the
  files written (path and document, a later write of the same path replaces the earlier
  one) and the three lists.
\<close>

record export_state =
  files :: "(string \<times> json) list"
  generated_files :: "string list"
  searchable_apis :: "string list"
  system_apis :: "string list"


definition write_file :: "string \<Rightarrow> json \<Rightarrow> (string \<times> json) list \<Rightarrow> (string \<times> json) list" where
  "write_file path doc fs = (path, doc) # filter (\<lambda>f. fst f \<noteq> path) fs"

text \<open>
  The body of the \<^verbatim>\<open>try\<close> of the table loop. Opening the output file is the collaborator
  \<open>writable\<close>. After the file is written and the lists are extended, the statement
  \<^verbatim>\<open>print(f"   {status_icon} Type: {status_text}")\<close> reads the name \<^verbatim>\<open>status_icon\<close>,
  which is bound nowhere: it raises \<^verbatim>\<open>NameError\<close>, and the rest of the body is not run.
\<close>

definition process_table ::
  "(string \<Rightarrow> error + row list) \<Rightarrow> (string \<Rightarrow> bool) \<Rightarrow> export_state \<Rightarrow> string
     \<Rightarrow> export_state \<times> error option" where
  "process_table describe writable st table_name =
     (case describe table_name of
        Inl e \<Rightarrow> (st, Some e)
      | Inr columns \<Rightarrow>
          if columns = [] then (st, None)
          else
            (case create_enhanced_individual_table_spec table_name columns of
               Inl e \<Rightarrow> (st, Some e)
             | Inr openapi_spec \<Rightarrow>
                 let output_file = ''exports/individual_apis_enhanced/'' @ table_name @ ''_api.yaml''
                 in
                 if \<not> writable output_file then (st, Some IOError)
                 else
                   let st1 = st\<lparr>files := write_file output_file openapi_spec (files st),
                                 generated_files := generated_files st @ [output_file]\<rparr>;
                       st2 = (if should_generate_query_params_individual table_name
                              then st1\<lparr>searchable_apis := searchable_apis st1 @ [table_name]\<rparr>
                              else st1\<lparr>system_apis := system_apis st1 @ [table_name]\<rparr>)
                   in (st2, Some NameError)))"




section \<open>Collaborators and observations\<close>

text \<open>
  The database behind \<^verbatim>\<open>DESCRIBE\<close>, as a list of tables with their rows; describing a table
  that is not there raises \<^verbatim>\<open>ProgrammingError\<close>.
\<close>

definition describe_of :: "(string \<times> row list) list \<Rightarrow> string \<Rightarrow> error + row list" where
  "describe_of db table_name =
     (case map_of db table_name of None \<Rightarrow> Inl ProgrammingError | Some columns \<Rightarrow> Inr columns)"

text \<open>The document a run has written, if it has written one.\<close>

definition written :: "error + json option \<Rightarrow> json option" where
  "written r = (case r of Inl e \<Rightarrow> None | Inr d \<Rightarrow> d)"

text \<open>Navigation in the document a generator returns, if it returns one.\<close>

definition doc_path :: "json option \<Rightarrow> string list \<Rightarrow> json option" where
  "doc_path d ks = (case d of None \<Rightarrow> None | Some j \<Rightarrow> json_path j ks)"

definition result_path :: "error + json \<Rightarrow> string list \<Rightarrow> json option" where
  "result_path d ks = (case d of Inl e \<Rightarrow> None | Inr j \<Rightarrow> json_path j ks)"

text \<open>The names of the parameters found at a place of a document.\<close>

definition parameter_names :: "json option \<Rightarrow> json option list" where
  "parameter_names p = (case p of Some (JList ps) \<Rightarrow> param_names ps | _ \<Rightarrow> [])"

section \<open>Facts about strings\<close>

lemma contains_trans: "contains a b \<Longrightarrow> contains b c \<Longrightarrow> contains a c"
  unfolding contains_def by (rule sublist_order.order.trans)

lemma int_in_bigint: "contains ''int'' ''bigint''"
  by code_simp

lemma in_if: "a \<in> S \<Longrightarrow> b \<in> S \<Longrightarrow> (if c then a else b) \<in> S"
  by simp

section \<open>Type Mapper: properties\<close>

lemma mysql_type_to_openapi_type_range:
  "mysql_type_to_openapi_type t \<in> set
   [[(Str ''type'', JStr ''integer''), (Str ''format'', JStr ''int64'')],
    [(Str ''type'', JStr ''boolean'')],
    [(Str ''type'', JStr ''integer''), (Str ''format'', JStr ''int32'')],
    [(Str ''type'', JStr ''number''), (Str ''format'', JStr ''double'')],
    [(Str ''type'', JStr ''string'')],
    [(Str ''type'', JStr ''string''), (Str ''format'', JStr ''date-time'')],
    [(Str ''type'', JStr ''string''), (Str ''format'', JStr ''date'')],
    [(Str ''type'', JStr ''string''), (Str ''format'', JStr ''time'')],
    [(Str ''type'', JStr ''object'')]]"
  unfolding mysql_type_to_openapi_type_def Let_def
  by (intro in_if; code_simp)

lemma mysql_type_to_openapi_type_basic_range:
  "mysql_type_to_openapi_type_basic t \<in> set
   [[(Str ''type'', JStr ''integer''), (Str ''format'', JStr ''int64'')],
    [(Str ''type'', JStr ''integer''), (Str ''format'', JStr ''int32'')],
    [(Str ''type'', JStr ''number''), (Str ''format'', JStr ''double'')],
    [(Str ''type'', JStr ''string'')],
    [(Str ''type'', JStr ''string''), (Str ''format'', JStr ''email'')],
    [(Str ''type'', JStr ''string''), (Str ''format'', JStr ''date-time'')],
    [(Str ''type'', JStr ''string''), (Str ''format'', JStr ''date'')],
    [(Str ''type'', JStr ''boolean'')],
    [(Str ''type'', JStr ''object'')]]"
  unfolding mysql_type_to_openapi_type_basic_def Let_def
  by (intro in_if; code_simp)

lemma type_fragments_one_type:
  "\<forall>d \<in> set
   [[(Str ''type'', JStr ''integer''), (Str ''format'', JStr ''int64'')],
    [(Str ''type'', JStr ''boolean'')],
    [(Str ''type'', JStr ''integer''), (Str ''format'', JStr ''int32'')],
    [(Str ''type'', JStr ''number''), (Str ''format'', JStr ''double'')],
    [(Str ''type'', JStr ''string'')],
    [(Str ''type'', JStr ''string''), (Str ''format'', JStr ''email'')],
    [(Str ''type'', JStr ''string''), (Str ''format'', JStr ''date-time'')],
    [(Str ''type'', JStr ''string''), (Str ''format'', JStr ''date'')],
    [(Str ''type'', JStr ''string''), (Str ''format'', JStr ''time'')],
    [(Str ''type'', JStr ''object'')]].
   dict_get d (Str ''type'')
     \<in> (\<lambda>ty. Some (JStr ty)) ` {''integer'', ''number'', ''string'', ''boolean'', ''object''}
   \<and> length (filter (\<lambda>kv. fst kv = Str ''type'') d) = 1"
  by code_simp

text \<open>
  Claim C3. The Type Mapper is a total function of the lower-cased type string; the first
  matching rule wins. Every input whose lower-cased form contains \<open>bigint\<close> is mapped to
  type \<open>integer\<close> with format \<open>int64\<close> by both variants; the input \<open>tinyint(1)\<close> is mapped
  to type \<open>boolean\<close> by the enhanced (boolean-sensitive) variant and to type \<open>integer\<close> by
  the basic variant; every input gets exactly one \<open>type\<close> entry, drawn from the fixed
  OpenAPI type names.
\<close>

theorem type_mapper_total_first_match:
  "(contains ''bigint'' (lower t) \<longrightarrow>
      mysql_type_to_openapi_type t =
        [(Str ''type'', JStr ''integer''), (Str ''format'', JStr ''int64'')] \<and>
      mysql_type_to_openapi_type_basic t =
        [(Str ''type'', JStr ''integer''), (Str ''format'', JStr ''int64'')])
   \<and> mysql_type_to_openapi_type ''tinyint(1)'' = [(Str ''type'', JStr ''boolean'')]
   \<and> mysql_type_to_openapi_type_basic ''tinyint(1)'' =
        [(Str ''type'', JStr ''integer''), (Str ''format'', JStr ''int32'')]
   \<and> dict_get (mysql_type_to_openapi_type t) (Str ''type'')
        \<in> (\<lambda>ty. Some (JStr ty)) ` {''integer'', ''number'', ''string'', ''boolean'', ''object''}
   \<and> dict_get (mysql_type_to_openapi_type_basic t) (Str ''type'')
        \<in> (\<lambda>ty. Some (JStr ty)) ` {''integer'', ''number'', ''string'', ''boolean'', ''object''}
   \<and> length (filter (\<lambda>kv. fst kv = Str ''type'') (mysql_type_to_openapi_type t)) = 1
   \<and> length (filter (\<lambda>kv. fst kv = Str ''type'') (mysql_type_to_openapi_type_basic t)) = 1
   \<and> (lower t = lower t' \<longrightarrow>
        mysql_type_to_openapi_type t = mysql_type_to_openapi_type t' \<and>
        mysql_type_to_openapi_type_basic t = mysql_type_to_openapi_type_basic t')"
proof -
  have big: "contains ''bigint'' (lower t) \<longrightarrow>
      mysql_type_to_openapi_type t =
        [(Str ''type'', JStr ''integer''), (Str ''format'', JStr ''int64'')] \<and>
      mysql_type_to_openapi_type_basic t =
        [(Str ''type'', JStr ''integer''), (Str ''format'', JStr ''int64'')]"
    using contains_trans [OF int_in_bigint, of "lower t"]
    by (simp add: mysql_type_to_openapi_type_def mysql_type_to_openapi_type_basic_def)
  have tiny: "mysql_type_to_openapi_type ''tinyint(1)'' = [(Str ''type'', JStr ''boolean'')]"
    by code_simp
  have tiny_basic: "mysql_type_to_openapi_type_basic ''tinyint(1)'' =
        [(Str ''type'', JStr ''integer''), (Str ''format'', JStr ''int32'')]"
    by code_simp
  have ty: "dict_get (mysql_type_to_openapi_type t) (Str ''type'')
        \<in> (\<lambda>ty. Some (JStr ty)) ` {''integer'', ''number'', ''string'', ''boolean'', ''object''}
      \<and> length (filter (\<lambda>kv. fst kv = Str ''type'') (mysql_type_to_openapi_type t)) = 1"
    using mysql_type_to_openapi_type_range [of t] type_fragments_one_type
    by (elim ballE [where x = "mysql_type_to_openapi_type t"]) auto
  have ty_basic: "dict_get (mysql_type_to_openapi_type_basic t) (Str ''type'')
        \<in> (\<lambda>ty. Some (JStr ty)) ` {''integer'', ''number'', ''string'', ''boolean'', ''object''}
      \<and> length (filter (\<lambda>kv. fst kv = Str ''type'') (mysql_type_to_openapi_type_basic t)) = 1"
    using mysql_type_to_openapi_type_basic_range [of t] type_fragments_one_type
    by (elim ballE [where x = "mysql_type_to_openapi_type_basic t"]) auto
  have det: "lower t = lower t' \<longrightarrow>
        mysql_type_to_openapi_type t = mysql_type_to_openapi_type t' \<and>
        mysql_type_to_openapi_type_basic t = mysql_type_to_openapi_type_basic t'"
    by (simp add: mysql_type_to_openapi_type_def mysql_type_to_openapi_type_basic_def)
  from big tiny tiny_basic ty ty_basic det show ?thesis
    by blast
qed

theorem type_mapper_total_first_match_witness:
  "contains ''bigint'' (lower ''BIGINT(20) unsigned'')
   \<and> lower ''BIGINT(20) unsigned'' = lower ''bigint(20) unsigned''
   \<and> mysql_type_to_openapi_type ''BIGINT(20) unsigned'' =
        [(Str ''type'', JStr ''integer''), (Str ''format'', JStr ''int64'')]
   \<and> mysql_type_to_openapi_type_basic ''BIGINT(20) unsigned'' =
        mysql_type_to_openapi_type_basic ''bigint(20) unsigned''"
proof -
  have h1: "contains ''bigint'' (lower ''BIGINT(20) unsigned'')"
    by code_simp
  have h2: "lower ''BIGINT(20) unsigned'' = lower ''bigint(20) unsigned''"
    by code_simp
  from h1 h2
    type_mapper_total_first_match [of "''BIGINT(20) unsigned''" "''bigint(20) unsigned''"]
  show ?thesis by blast
qed

section \<open>Naming Transformer: properties\<close>

text \<open>
  Claim C9. The singular resource name of a table name that ends with \<open>s\<close> is the name
  without that one trailing \<open>s\<close>, and the name itself otherwise; \<open>tasks\<close> gives \<open>task\<close> and
  \<open>status\<close> gives \<open>statu\<close>. The derived identifiers are functions of the table name alone:
  equal table names give equal identifiers.
\<close>

theorem resource_singular_strips_one_s:
  "resource_name (u @ ''s'') = u
   \<and> ((\<nexists>v. t = v @ ''s'') \<longrightarrow> resource_name t = t)
   \<and> resource_name ''tasks'' = ''task''
   \<and> resource_name ''status'' = ''statu''
   \<and> (t = t' \<longrightarrow> resource_name t = resource_name t' \<and> schema_name t = schema_name t'
        \<and> new_schema_name t = new_schema_name t' \<and> update_schema_name t = update_schema_name t'
        \<and> new_schema_name_basic t = new_schema_name_basic t')"
proof -
  have a: "resource_name (u @ ''s'') = u"
    by (simp add: resource_name_def endswith_def drop_last_def)
  have b: "(\<nexists>v. t = v @ ''s'') \<longrightarrow> resource_name t = t"
    by (auto simp add: resource_name_def endswith_def suffix_def)
  have c: "resource_name ''tasks'' = ''task''"
    by code_simp
  have d: "resource_name ''status'' = ''statu''"
    by code_simp
  from a b c d show ?thesis by blast
qed

theorem resource_singular_strips_one_s_witness:
  "(\<nexists>v. ''family'' = v @ ''s'') \<and> resource_name ''family'' = ''family''
   \<and> resource_name (''user'' @ ''s'') = ''user''"
proof -
  have h: "\<nexists>v. ''family'' = v @ ''s''"
    by (simp add: append_eq_Cons_conv)
  from h resource_singular_strips_one_s [of "''user''" "''family''" "''family''"]
  show ?thesis by blast
qed

section \<open>Facts about dictionaries and loops\<close>

lemma dict_set_keys: "fst ` set (dict_set d k v) = insert k (fst ` set d)"
proof (induction d)
  case Nil
  show ?case by simp
next
  case (Cons kv d)
  obtain k' v' where kv: "kv = (k', v')" by (cases kv)
  show ?case using Cons by (cases "k' = k") (auto simp: kv)
qed

lemma dict_keys_set: "set (dict_keys (dict_set d k v)) = insert k (set (dict_keys d))"
  by (simp add: dict_keys_def dict_set_keys)

lemma dict_get_set: "dict_get (dict_set d k v) k' = (if k' = k then Some v else dict_get d k')"
  by (induction d) (auto simp: dict_get_def)

lemma for_each_invariant:
  "for_each body st xs = Inr st' \<Longrightarrow> P st \<Longrightarrow>
     (\<And>s x s'. body s x = Inr s' \<Longrightarrow> P s \<Longrightarrow> P s') \<Longrightarrow> P st'"
  by (induction xs arbitrary: st) (auto split: sum.splits)

lemma distinct_names_eq:
  "distinct (map (\<lambda>c. c ! 0) cols) \<Longrightarrow> c \<in> set cols \<Longrightarrow> c' \<in> set cols \<Longrightarrow>
     c ! 0 = c' ! 0 \<Longrightarrow> c = c'"
  by (meson distinct_map inj_onD)

section \<open>Write schema: what one pass and the whole loop add\<close>

lemma decorate_primary_read_only:
  "decorate t (Str ''PRI'') n pk ty = Inr d \<Longrightarrow> read_only d"
  by (auto simp add: decorate_def dict_sets_def read_only_def dict_get_set)

lemma track_auto:
  "track_primary_key st k n e = Inr (pk, auto) \<Longrightarrow>
     auto = (has_auto_increment st \<or>
       (k = Str ''PRI'' \<and>
        (case e of Str extra \<Rightarrow> contains ''auto_increment'' (lower extra) | PyNone \<Rightarrow> False)))"
  by (auto simp add: track_primary_key_def cell_lower_def split: if_splits sum.splits cell.splits)

lemma process_column_new:
  assumes "process_column t st c = Inr st'"
  shows "set (dict_keys (new_properties st')) \<subseteq>
           set (dict_keys (new_properties st)) \<union> (if is_primary c then {} else {c ! 0})"
    and "set (new_required st') \<subseteq>
           set (new_required st) \<union> (if is_primary c then {} else {c ! 0})"
    and "set (new_required st) \<subseteq> set (dict_keys (new_properties st)) \<Longrightarrow>
           set (new_required st') \<subseteq> set (dict_keys (new_properties st'))"
  using assms
  by (auto simp add: process_column_def Let_def is_primary_def dict_keys_set
      split: if_splits sum.splits cell.splits prod.splits dest: decorate_primary_read_only)

lemma process_column_basic_new:
  assumes "process_column_basic st c = Inr st'"
  shows "set (dict_keys (new_properties st')) \<subseteq>
           set (dict_keys (new_properties st)) \<union>
           (if is_primary c \<and> is_auto_increment c then {} else {c ! 0})"
    and "set (new_required st') \<subseteq>
           set (new_required st) \<union> (if is_primary c then {} else {c ! 0})"
    and "set (new_required st) \<subseteq> set (dict_keys (new_properties st)) \<Longrightarrow>
           set (new_required st') \<subseteq> set (dict_keys (new_properties st'))"
    and "has_auto_increment st' =
           (has_auto_increment st \<or> (is_primary c \<and> is_auto_increment c))"
    and "\<not> has_auto_increment st' \<Longrightarrow>
           set (dict_keys (new_properties st')) =
             insert (c ! 0) (set (dict_keys (new_properties st)))"
  using assms
  by (auto simp add: process_column_basic_def Let_def is_primary_def is_auto_increment_def
      dict_keys_set
      split: if_splits sum.splits cell.splits prod.splits dest!: track_auto)

lemma for_each_new:
  "for_each (process_column t) st cols = Inr st' \<Longrightarrow>
     set (dict_keys (new_properties st')) \<subseteq>
       set (dict_keys (new_properties st)) \<union> {c ! 0 |c. c \<in> set cols \<and> \<not> is_primary c}
     \<and> set (new_required st') \<subseteq>
       set (new_required st) \<union> {c ! 0 |c. c \<in> set cols \<and> \<not> is_primary c}"
proof (induction cols arbitrary: st)
  case Nil
  then show ?case by simp
next
  case (Cons c cols)
  then obtain s1 where s1: "process_column t st c = Inr s1"
    and rest: "for_each (process_column t) s1 cols = Inr st'"
    by (auto split: sum.splits)
  have split: "{c' ! 0 |c'. c' \<in> set (c # cols) \<and> \<not> is_primary c'} =
      (if is_primary c then {} else {c ! 0}) \<union>
      {c' ! 0 |c'. c' \<in> set cols \<and> \<not> is_primary c'}"
    by auto
  from process_column_new(1,2) [OF s1] Cons.IH [OF rest] show ?case
    unfolding split by blast
qed

lemma for_each_basic_new:
  "for_each process_column_basic st cols = Inr st' \<Longrightarrow>
     set (dict_keys (new_properties st')) \<subseteq>
       set (dict_keys (new_properties st)) \<union>
       {c ! 0 |c. c \<in> set cols \<and> \<not> (is_primary c \<and> is_auto_increment c)}
     \<and> set (new_required st') \<subseteq>
       set (new_required st) \<union> {c ! 0 |c. c \<in> set cols \<and> \<not> is_primary c}"
proof (induction cols arbitrary: st)
  case Nil
  then show ?case by simp
next
  case (Cons c cols)
  then obtain s1 where s1: "process_column_basic st c = Inr s1"
    and rest: "for_each process_column_basic s1 cols = Inr st'"
    by (auto split: sum.splits)
  have split: "{c' ! 0 |c'. c' \<in> set (c # cols) \<and> \<not> is_primary c'} =
      (if is_primary c then {} else {c ! 0}) \<union>
      {c' ! 0 |c'. c' \<in> set cols \<and> \<not> is_primary c'}"
    by auto
  have split2:
    "{c' ! 0 |c'. c' \<in> set (c # cols) \<and> \<not> (is_primary c' \<and> is_auto_increment c')} =
      (if is_primary c \<and> is_auto_increment c then {} else {c ! 0}) \<union>
      {c' ! 0 |c'. c' \<in> set cols \<and> \<not> (is_primary c' \<and> is_auto_increment c')}"
    by auto
  from process_column_basic_new(1,2) [OF s1] Cons.IH [OF rest] show ?case
    unfolding split split2 by blast
qed

lemma for_each_basic_all:
  "for_each process_column_basic st cols = Inr st' \<Longrightarrow> \<not> has_auto_increment st \<Longrightarrow>
     \<forall>c \<in> set cols. is_primary c \<longrightarrow> \<not> is_auto_increment c \<Longrightarrow>
     set (dict_keys (new_properties st')) =
       set (dict_keys (new_properties st)) \<union> {c ! 0 |c. c \<in> set cols}
     \<and> \<not> has_auto_increment st'"
proof (induction cols arbitrary: st)
  case Nil
  then show ?case by simp
next
  case (Cons c cols)
  then obtain s1 where s1: "process_column_basic st c = Inr s1"
    and rest: "for_each process_column_basic s1 cols = Inr st'"
    by (auto split: sum.splits)
  have na: "\<not> has_auto_increment s1"
    using process_column_basic_new(4) [OF s1] Cons.prems by auto
  have k1: "set (dict_keys (new_properties s1)) =
      insert (c ! 0) (set (dict_keys (new_properties st)))"
    using process_column_basic_new(5) [OF s1 na] .
  from Cons.IH [OF rest na] Cons.prems(3) k1 show ?case
    by auto
qed

section \<open>Write schema: the primary key\<close>

text \<open>
  Claim C1, as stated, fails on both generators for a table whose primary key \<open>code\<close> is
  not auto-increment: the basic generator puts \<open>code\<close> among the properties of the write
  schema but leaves its required list empty, and the enhanced generator leaves \<open>code\<close>
  out of the write schema altogether.
\<close>

theorem non_auto_primary_key_counterexample:
  "is_primary [Str ''code'', Str ''varchar(10)'', Str ''NO'', Str ''PRI'', PyNone, Str []]
   \<and> \<not> is_auto_increment
        [Str ''code'', Str ''varchar(10)'', Str ''NO'', Str ''PRI'', PyNone, Str []]
   \<and> build_schemas_basic
        [[Str ''code'', Str ''varchar(10)'', Str ''NO'', Str ''PRI'', PyNone, Str []]] =
      Inr \<lparr>table_properties =
             [(Str ''code'', JDict [(Str ''type'', JStr ''string''), (Str ''readOnly'', JBool True)])],
           table_required = [Str ''code''],
           new_properties = [(Str ''code'', JDict [(Str ''type'', JStr ''string'')])],
           new_required = [],
           primary_key_column = Str ''code'',
           has_auto_increment = False\<rparr>
   \<and> build_schemas ''codes''
        [[Str ''code'', Str ''varchar(10)'', Str ''NO'', Str ''PRI'', PyNone, Str []]] =
      Inr \<lparr>table_properties =
             [(Str ''code'',
               JDict [(Str ''type'', JStr ''string''), (Str ''readOnly'', JBool True),
                      (Str ''description'', JStr ''Primary key for codes'')])],
           table_required = [Str ''code''],
           new_properties = [],
           new_required = [],
           primary_key_column = Str ''code'',
           has_auto_increment = False\<rparr>"
  by code_simp

text \<open>
  Claim C1, amended. For a table whose column names are distinct and a primary key column
  of it: the write schema never lists the primary key as required (both generators); an
  auto-increment primary key is not among the properties of the write schema (both
  generators); the enhanced generator leaves every primary key out of the write schema,
  auto-increment or not, since it marks it read-only; the basic generator keeps the primary
  key among the properties of the write schema when no primary key column of the table is
  auto-increment.
\<close>

theorem primary_key_in_write_schema:
  assumes "distinct (map (\<lambda>c. c ! 0) columns)"
      and "pk \<in> set columns"
      and "is_primary pk"
  shows "(build_schemas t columns = Inr s \<longrightarrow>
            pk ! 0 \<notin> set (dict_keys (new_properties s)) \<and> pk ! 0 \<notin> set (new_required s))
       \<and> (build_schemas_basic columns = Inr s' \<longrightarrow>
            pk ! 0 \<notin> set (new_required s')
            \<and> (is_auto_increment pk \<longrightarrow> pk ! 0 \<notin> set (dict_keys (new_properties s')))
            \<and> ((\<forall>c \<in> set columns. is_primary c \<longrightarrow> \<not> is_auto_increment c) \<longrightarrow>
                 pk ! 0 \<in> set (dict_keys (new_properties s'))))"
proof (intro conjI impI)
  assume b: "build_schemas t columns = Inr s"
  from for_each_new [OF b [unfolded build_schemas_def]]
  have k: "set (dict_keys (new_properties s)) \<subseteq>
             {c ! 0 |c. c \<in> set columns \<and> \<not> is_primary c}"
    and r: "set (new_required s) \<subseteq> {c ! 0 |c. c \<in> set columns \<and> \<not> is_primary c}"
    by (auto simp add: initial_schemas_def dict_keys_def)
  show "pk ! 0 \<notin> set (dict_keys (new_properties s))"
    using k assms distinct_names_eq [OF assms(1) assms(2)] by blast
  show "pk ! 0 \<notin> set (new_required s)"
    using r assms distinct_names_eq [OF assms(1) assms(2)] by blast
next
  assume b: "build_schemas_basic columns = Inr s'"
  from for_each_basic_new [OF b [unfolded build_schemas_basic_def]]
  have k: "set (dict_keys (new_properties s')) \<subseteq>
             {c ! 0 |c. c \<in> set columns \<and> \<not> (is_primary c \<and> is_auto_increment c)}"
    and r: "set (new_required s') \<subseteq> {c ! 0 |c. c \<in> set columns \<and> \<not> is_primary c}"
    by (auto simp add: initial_schemas_def dict_keys_def)
  show "pk ! 0 \<notin> set (new_required s')"
    using r assms distinct_names_eq [OF assms(1) assms(2)] by blast
  show "pk ! 0 \<notin> set (dict_keys (new_properties s'))" if "is_auto_increment pk"
    using k that assms distinct_names_eq [OF assms(1) assms(2)] by blast
  show "pk ! 0 \<in> set (dict_keys (new_properties s'))"
    if "\<forall>c \<in> set columns. is_primary c \<longrightarrow> \<not> is_auto_increment c"
    using for_each_basic_all [OF b [unfolded build_schemas_basic_def] _ that] assms(2)
    by (auto simp add: initial_schemas_def)
qed

theorem primary_key_in_write_schema_witness:
  "distinct (map (\<lambda>c. c ! 0)
      [[Str ''code'', Str ''varchar(10)'', Str ''NO'', Str ''PRI'', PyNone, Str []]])
   \<and> is_primary [Str ''code'', Str ''varchar(10)'', Str ''NO'', Str ''PRI'', PyNone, Str []]
   \<and> \<not> is_auto_increment
        [Str ''code'', Str ''varchar(10)'', Str ''NO'', Str ''PRI'', PyNone, Str []]
   \<and> (\<exists>s. build_schemas ''codes''
              [[Str ''code'', Str ''varchar(10)'', Str ''NO'', Str ''PRI'', PyNone, Str []]] = Inr s
          \<and> Str ''code'' \<notin> set (dict_keys (new_properties s))
          \<and> Str ''code'' \<notin> set (new_required s))
   \<and> (\<exists>s'. build_schemas_basic
              [[Str ''code'', Str ''varchar(10)'', Str ''NO'', Str ''PRI'', PyNone, Str []]] = Inr s'
          \<and> Str ''code'' \<in> set (dict_keys (new_properties s'))
          \<and> Str ''code'' \<notin> set (new_required s'))"
proof -
  let ?row = "[Str ''code'', Str ''varchar(10)'', Str ''NO'', Str ''PRI'', PyNone, Str []]"
  let ?s = "\<lparr>table_properties =
             [(Str ''code'',
               JDict [(Str ''type'', JStr ''string''), (Str ''readOnly'', JBool True),
                      (Str ''description'', JStr ''Primary key for codes'')])],
           table_required = [Str ''code''],
           new_properties = [],
           new_required = [],
           primary_key_column = Str ''code'',
           has_auto_increment = False\<rparr>"
  let ?s' = "\<lparr>table_properties =
             [(Str ''code'', JDict [(Str ''type'', JStr ''string''), (Str ''readOnly'', JBool True)])],
           table_required = [Str ''code''],
           new_properties = [(Str ''code'', JDict [(Str ''type'', JStr ''string'')])],
           new_required = [],
           primary_key_column = Str ''code'',
           has_auto_increment = False\<rparr>"
  have h1: "distinct (map (\<lambda>c. c ! 0) [?row])" by simp
  have h2: "?row \<in> set [?row]" by simp
  have h3: "is_primary ?row" by code_simp
  have h5: "\<not> is_auto_increment ?row" by code_simp
  then have h4: "\<forall>c \<in> set [?row]. is_primary c \<longrightarrow> \<not> is_auto_increment c" by simp
  have e: "build_schemas ''codes'' [?row] = Inr ?s" by code_simp
  have b: "build_schemas_basic [?row] = Inr ?s'" by code_simp
  have n: "?row ! 0 = Str ''code''" by simp
  from primary_key_in_write_schema [OF h1 h2 h3, of "''codes''" ?s ?s'] e b h4
  have "Str ''code'' \<notin> set (dict_keys (new_properties ?s))
      \<and> Str ''code'' \<notin> set (new_required ?s)
      \<and> Str ''code'' \<in> set (dict_keys (new_properties ?s'))
      \<and> Str ''code'' \<notin> set (new_required ?s')"
    unfolding n by blast
  with h1 h3 h5 e b show ?thesis by blast
qed

section \<open>Write schema: required fields are properties\<close>

text \<open>
  Claim C2. In both generators every name in the required list of the write schema is a
  key of its properties; so a field that is not in the write schema (an auto-increment
  primary key, a read-only field) is not in its required list.
\<close>

theorem write_required_subset_properties:
  "(build_schemas t columns = Inr s \<longrightarrow>
      set (new_required s) \<subseteq> set (dict_keys (new_properties s))
      \<and> (\<forall>n. n \<notin> set (dict_keys (new_properties s)) \<longrightarrow> n \<notin> set (new_required s)))
   \<and> (build_schemas_basic columns = Inr s' \<longrightarrow>
      set (new_required s') \<subseteq> set (dict_keys (new_properties s'))
      \<and> (\<forall>n. n \<notin> set (dict_keys (new_properties s')) \<longrightarrow> n \<notin> set (new_required s')))"
proof (intro conjI impI)
  assume b: "build_schemas t columns = Inr s"
  show sub: "set (new_required s) \<subseteq> set (dict_keys (new_properties s))"
    by (rule for_each_invariant [OF b [unfolded build_schemas_def],
          where P = "\<lambda>st. set (new_required st) \<subseteq> set (dict_keys (new_properties st))"])
       (simp add: initial_schemas_def, erule (1) process_column_new(3))
  show "\<forall>n. n \<notin> set (dict_keys (new_properties s)) \<longrightarrow> n \<notin> set (new_required s)"
    using sub by blast
next
  assume b: "build_schemas_basic columns = Inr s'"
  show sub: "set (new_required s') \<subseteq> set (dict_keys (new_properties s'))"
    by (rule for_each_invariant [OF b [unfolded build_schemas_basic_def],
          where P = "\<lambda>st. set (new_required st) \<subseteq> set (dict_keys (new_properties st))"])
       (simp add: initial_schemas_def, erule (1) process_column_basic_new(3))
  show "\<forall>n. n \<notin> set (dict_keys (new_properties s')) \<longrightarrow> n \<notin> set (new_required s')"
    using sub by blast
qed

theorem write_required_subset_properties_witness:
  "(\<exists>s. build_schemas ''users''
            [[Str ''id'', Str ''int(11)'', Str ''NO'', Str ''PRI'', PyNone, Str ''auto_increment''],
             [Str ''email'', Str ''varchar(255)'', Str ''NO'', Str [], PyNone, Str []],
             [Str ''created_at'', Str ''timestamp'', Str ''NO'', Str [], PyNone, Str []]] = Inr s
        \<and> new_required s = [Str ''email'']
        \<and> set (new_required s) \<subseteq> set (dict_keys (new_properties s))
        \<and> Str ''created_at'' \<notin> set (dict_keys (new_properties s))
        \<and> Str ''created_at'' \<notin> set (new_required s))
   \<and> (\<exists>s'. build_schemas_basic
            [[Str ''id'', Str ''int(11)'', Str ''NO'', Str ''PRI'', PyNone, Str ''auto_increment''],
             [Str ''email'', Str ''varchar(255)'', Str ''NO'', Str [], PyNone, Str []]] = Inr s'
        \<and> set (new_required s') \<subseteq> set (dict_keys (new_properties s'))
        \<and> Str ''id'' \<notin> set (dict_keys (new_properties s'))
        \<and> Str ''id'' \<notin> set (new_required s'))"
proof -
  let ?cols = "[[Str ''id'', Str ''int(11)'', Str ''NO'', Str ''PRI'', PyNone, Str ''auto_increment''],
             [Str ''email'', Str ''varchar(255)'', Str ''NO'', Str [], PyNone, Str []],
             [Str ''created_at'', Str ''timestamp'', Str ''NO'', Str [], PyNone, Str []]]"
  let ?cols' = "[[Str ''id'', Str ''int(11)'', Str ''NO'', Str ''PRI'', PyNone, Str ''auto_increment''],
             [Str ''email'', Str ''varchar(255)'', Str ''NO'', Str [], PyNone, Str []]]"
  obtain s where e: "build_schemas ''users'' ?cols = Inr s"
    and e1: "new_required s = [Str ''email'']"
    and e2: "Str ''created_at'' \<notin> set (dict_keys (new_properties s))"
  proof -
    have "case build_schemas ''users'' ?cols of
            Inr s \<Rightarrow> new_required s = [Str ''email'']
                     \<and> Str ''created_at'' \<notin> set (dict_keys (new_properties s))
          | Inl e \<Rightarrow> False"
      by code_simp
    then show ?thesis using that by (auto split: sum.splits)
  qed
  obtain s' where b: "build_schemas_basic ?cols' = Inr s'"
    and b1: "Str ''id'' \<notin> set (dict_keys (new_properties s'))"
  proof -
    have "case build_schemas_basic ?cols' of
            Inr s \<Rightarrow> Str ''id'' \<notin> set (dict_keys (new_properties s))
          | Inl e \<Rightarrow> False"
      by code_simp
    then show ?thesis using that by (auto split: sum.splits)
  qed
  from write_required_subset_properties [of "''users''" ?cols s]
       write_required_subset_properties [of "''users''" ?cols' _ s'] e b
  have "set (new_required s) \<subseteq> set (dict_keys (new_properties s))
      \<and> (\<forall>n. n \<notin> set (dict_keys (new_properties s)) \<longrightarrow> n \<notin> set (new_required s))
      \<and> set (new_required s') \<subseteq> set (dict_keys (new_properties s'))
      \<and> (\<forall>n. n \<notin> set (dict_keys (new_properties s')) \<longrightarrow> n \<notin> set (new_required s'))"
    by blast
  with e e1 e2 b b1 show ?thesis by blast
qed


section \<open>Query Parameter Advisor: properties\<close>

lemma query_param_name: "json_get (query_param n s d) ''name'' = Some (JStr n)"
  by (simp add: query_param_def OrderedDict_def json_get_def dict_get_def)

lemma pagination_names:
  "param_names (pagination_params columns) =
     [Some (JStr ''page''), Some (JStr ''limit''), Some (JStr ''sort_by''),
      Some (JStr ''sort_order'')]"
  by (simp add: param_names_def pagination_params_def query_param_name)

lemma not_searchable_no_params:
  "\<not> should_generate_query_params_individual t \<Longrightarrow> add_smart_query_params columns t = Inr []"
  by (simp add: add_smart_query_params_def)

lemma system_not_searchable:
  "\<exists>frag \<in> set system_tables. contains frag (lower t) \<Longrightarrow>
     \<not> should_generate_query_params_individual t"
  by (simp add: should_generate_query_params_individual_def Let_def list_ex_iff)

lemma searchable_shape:
  assumes "should_generate_query_params_individual t"
      and "add_smart_query_params columns t = Inr ps"
  shows "\<exists>pre. ps = pre @ pagination_params columns"
  using assms
  by (auto simp add: add_smart_query_params_def Let_def split: sum.splits if_splits)

text \<open>
  Claim C5. A table whose lower-cased name contains one of the system fragments
  (\<open>log_\<close>, \<open>audit_\<close>, \<open>temp_\<close>, \<open>backup_\<close> or a listed lookup-table name) is not
  searchable and gets the empty parameter sequence whatever its columns are (malformed
  rows included: they are not read), also when the name contains a name of the high- or
  medium-priority list, because the system list is tested first; \<open>audit_log\<close> is such a
  table, and so is \<open>audit_users\<close>, which contains the high-priority name \<open>users\<close>.
\<close>

theorem system_tables_get_no_params:
  "((\<exists>frag \<in> set system_tables. contains frag (lower t)) \<longrightarrow>
      \<not> should_generate_query_params_individual t
      \<and> add_smart_query_params columns t = Inr [])
   \<and> set system_tables =
       {''categorypriority'', ''conflictactions'', ''conflictsuggestions'',
        ''log_'', ''audit_'', ''temp_'', ''backup_''}
   \<and> add_smart_query_params columns ''audit_log'' = Inr []
   \<and> list_ex (\<lambda>n. contains n (lower ''audit_users'')) high_priority_tables
   \<and> add_smart_query_params columns ''audit_users'' = Inr []"
proof -
  have gen: "(\<exists>frag \<in> set system_tables. contains frag (lower t)) \<longrightarrow>
      \<not> should_generate_query_params_individual t
      \<and> add_smart_query_params columns t = Inr []"
    using system_not_searchable [of t] not_searchable_no_params [of t columns] by blast
  have frags: "set system_tables =
       {''categorypriority'', ''conflictactions'', ''conflictsuggestions'',
        ''log_'', ''audit_'', ''temp_'', ''backup_''}"
    by (simp add: system_tables_def)
  have a1: "\<exists>frag \<in> set system_tables. contains frag (lower ''audit_log'')"
    by code_simp
  have a2: "\<exists>frag \<in> set system_tables. contains frag (lower ''audit_users'')"
    by code_simp
  have a3: "list_ex (\<lambda>n. contains n (lower ''audit_users'')) high_priority_tables"
    by code_simp
  from a1 have r1: "add_smart_query_params columns ''audit_log'' = Inr []"
    using system_not_searchable not_searchable_no_params by blast
  from a2 have r2: "add_smart_query_params columns ''audit_users'' = Inr []"
    using system_not_searchable not_searchable_no_params by blast
  from gen frags r1 a3 r2 show ?thesis by blast
qed

theorem system_tables_get_no_params_witness:
  "(\<exists>frag \<in> set system_tables. contains frag (lower ''Backup_Tasks''))
   \<and> \<not> should_generate_query_params_individual ''Backup_Tasks''
   \<and> add_smart_query_params [[Str ''id'', Str ''int'']] ''Backup_Tasks'' = Inr []"
proof -
  have h: "\<exists>frag \<in> set system_tables. contains frag (lower ''Backup_Tasks'')"
    by code_simp
  from h system_tables_get_no_params [of "''Backup_Tasks''" "[[Str ''id'', Str ''int'']]"]
  show ?thesis by blast
qed



section \<open>Facts about ordered dictionaries and references\<close>

lemma OrderedDict_dict_sets: "OrderedDict pairs = JDict (dict_sets [] pairs)"
  by (simp add: OrderedDict_def dict_sets_def)

lemma dict_sets_Nil: "dict_sets d [] = d"
  by (simp add: dict_sets_def)

lemma dict_sets_Cons: "dict_sets d (p # ps) = dict_sets (dict_set d (Str (fst p)) (snd p)) ps"
  by (simp add: dict_sets_def)

lemma dict_get_dict_sets:
  "dict_get (dict_sets d pairs) (Str k) =
     (case map_of (rev pairs) k of Some v \<Rightarrow> Some v | None \<Rightarrow> dict_get d (Str k))"
proof (induction pairs arbitrary: d)
  case Nil
  show ?case by (simp add: dict_sets_Nil)
next
  case (Cons p ps)
  obtain k' v' where p: "p = (k', v')" by (cases p)
  show ?case
    by (simp add: dict_sets_Cons Cons.IH dict_get_set p map_add_def split: option.splits)
qed

lemma json_get_OrderedDict: "json_get (OrderedDict pairs) k = map_of (rev pairs) k"
  by (simp add: OrderedDict_dict_sets json_get_def dict_get_dict_sets, simp add: dict_get_def split: option.splits)

lemma dict_keys_dict_sets:
  "set (dict_keys (dict_sets d pairs)) = set (dict_keys d) \<union> Str ` fst ` set pairs"
  by (induction pairs arbitrary: d) (auto simp: dict_sets_Nil dict_sets_Cons dict_keys_set)

lemma dict_set_fresh: "k \<notin> fst ` set d \<Longrightarrow> dict_set d k v = d @ [(k, v)]"
  by (induction d) auto

lemma dict_sets_distinct:
  "distinct (map fst pairs) \<Longrightarrow> Str ` fst ` set pairs \<inter> fst ` set d = {} \<Longrightarrow>
     dict_sets d pairs = d @ map (\<lambda>p. (Str (fst p), snd p)) pairs"
proof (induction pairs arbitrary: d)
  case Nil
  show ?case by (simp add: dict_sets_Nil)
next
  case (Cons p ps)
  have fresh: "Str (fst p) \<notin> fst ` set d" using Cons.prems(2) by auto
  have "dict_sets (d @ [(Str (fst p), snd p)]) ps =
          (d @ [(Str (fst p), snd p)]) @ map (\<lambda>p. (Str (fst p), snd p)) ps"
    using Cons.prems by (intro Cons.IH) auto
  then show ?case by (simp add: dict_sets_Cons dict_set_fresh [OF fresh])
qed

lemma OrderedDict_distinct:
  "distinct (map fst pairs) \<Longrightarrow> OrderedDict pairs = JDict (map (\<lambda>p. (Str (fst p), snd p)) pairs)"
  by (simp add: OrderedDict_dict_sets dict_sets_distinct)

lemma refs_of_items_append: "refs_of_items (a @ b) = refs_of_items a @ refs_of_items b"
  by (induction a) auto

lemma refs_dict_set:
  "set (refs_of_items (dict_set d k v)) \<subseteq>
     set (refs_of_items d) \<union> set (direct_ref k v) \<union> set (refs_of v)"
proof (induction d)
  case Nil
  show ?case by auto
next
  case (Cons kv d)
  obtain k' v' where kv: "kv = (k', v')" by (cases kv)
  show ?case using Cons by (cases "k' = k") (auto simp: kv)
qed

lemma refs_dict_del: "set (refs_of_items (dict_del d k)) \<subseteq> set (refs_of_items d)"
  unfolding dict_del_def by (induction d) auto

lemma refs_dict_sets:
  "set (refs_of_items (dict_sets d pairs)) \<subseteq>
     set (refs_of_items d) \<union>
     (\<Union>p \<in> set pairs. set (direct_ref (Str (fst p)) (snd p)) \<union> set (refs_of (snd p)))"
proof (induction pairs arbitrary: d)
  case Nil
  show ?case by (simp add: dict_sets_Nil)
next
  case (Cons p ps)
  show ?case
    using Cons.IH [of "dict_set d (Str (fst p)) (snd p)"] refs_dict_set [of d "Str (fst p)" "snd p"]
    by (auto simp: dict_sets_Cons)
qed

lemma refs_OrderedDict:
  assumes "list_all (\<lambda>p. (\<forall>r \<in> set (direct_ref (Str (fst p)) (snd p)). P r)
                        \<and> (\<forall>r \<in> set (refs_of (snd p)). P r)) pairs"
  shows "\<forall>r \<in> set (refs_of (OrderedDict pairs)). P r"
  using assms refs_dict_sets [of "[]" pairs]
  by (auto simp: OrderedDict_dict_sets list_all_iff)

lemma direct_ref_other: "k \<noteq> ''$ref'' \<Longrightarrow> direct_ref (Str k) v = []"
  by (simp add: direct_ref_def)

lemma direct_ref_None: "direct_ref PyNone v = []"
  by (simp add: direct_ref_def)

lemma direct_ref_dict: "direct_ref k (JDict d) = []"
  by (simp add: direct_ref_def split: cell.splits)

lemma schema_ref_refs: "refs_of (schema_ref n) = [''#/components/schemas/'' @ n]"
  by (simp add: schema_ref_def OrderedDict_def direct_ref_def)

lemma response_ref_refs: "refs_of (response_ref n) = [''#/components/responses/'' @ n]"
  by (simp add: response_ref_def OrderedDict_def direct_ref_def)

lemma json_content_refs: "refs_of (json_content s) = refs_of s"
  by (simp add: json_content_def OrderedDict_def direct_ref_def)

section \<open>Facts about the column loops and the document\<close>

lemma process_column_row:
  assumes "process_column t st c = Inr st'"
  shows "5 \<le> length c" and "\<exists>ty. c ! 1 = Str ty"
    and "primary_key_column st' = (if is_primary c then c ! 0 else primary_key_column st)"
  using assms
  by (auto simp add: process_column_def Let_def is_primary_def track_primary_key_def
      split: if_splits sum.splits cell.splits prod.splits)

lemma process_column_basic_row:
  assumes "process_column_basic st c = Inr st'"
  shows "5 \<le> length c" and "\<exists>ty. c ! 1 = Str ty"
    and "primary_key_column st' = (if is_primary c then c ! 0 else primary_key_column st)"
  using assms
  by (auto simp add: process_column_basic_def Let_def is_primary_def track_primary_key_def
      split: if_splits sum.splits cell.splits prod.splits)

lemma for_each_rows:
  assumes "for_each body st cols = Inr st'"
      and "\<And>s c s'. body s c = Inr s' \<Longrightarrow>
             5 \<le> length c \<and> (\<exists>ty. c ! 1 = Str ty)
             \<and> primary_key_column s' = (if is_primary c then c ! 0 else primary_key_column s)"
  shows "(\<forall>c \<in> set cols. 5 \<le> length c \<and> (\<exists>ty. c ! 1 = Str ty))
       \<and> primary_key_column st' =
           (if filter is_primary cols = [] then primary_key_column st
            else last (filter is_primary cols) ! 0)"
  using assms(1)
proof (induction cols arbitrary: st)
  case Nil
  then show ?case by simp
next
  case (Cons c cols)
  then obtain s1 where s1: "body st c = Inr s1" and rest: "for_each body s1 cols = Inr st'"
    by (auto split: sum.splits)
  from assms(2) [OF s1] Cons.IH [OF rest] show ?case by auto
qed

lemma build_schemas_rows:
  assumes "build_schemas t cols = Inr st"
  shows "\<forall>c \<in> set cols. 5 \<le> length c \<and> (\<exists>ty. c ! 1 = Str ty)"
    and "primary_key_column st =
           (if filter is_primary cols = [] then PyNone else last (filter is_primary cols) ! 0)"
  using for_each_rows [OF assms [unfolded build_schemas_def], of ] process_column_row
  by (simp_all add: initial_schemas_def)

lemma build_schemas_basic_rows:
  assumes "build_schemas_basic cols = Inr st"
  shows "\<forall>c \<in> set cols. 5 \<le> length c \<and> (\<exists>ty. c ! 1 = Str ty)"
    and "primary_key_column st =
           (if filter is_primary cols = [] then PyNone else last (filter is_primary cols) ! 0)"
  using for_each_rows [OF assms [unfolded build_schemas_basic_def]] process_column_basic_row
  by (simp_all add: initial_schemas_def)

lemma comprehension_total:
  "\<forall>x \<in> set xs. \<exists>y. f x = Inr y \<Longrightarrow> \<exists>ys. comprehension f xs = Inr ys \<and> length ys = length xs"
  by (induction xs) auto

lemma pk_type_of_total:
  assumes rows: "\<forall>c \<in> set cols. 5 \<le> length c \<and> (\<exists>ty. c ! 1 = Str ty)"
      and pk: "filter is_primary cols \<noteq> []"
  shows "\<exists>ty. pk_type_of cols (last (filter is_primary cols) ! 0) = Inr ty
              \<and> (ty = ''integer'' \<or> ty = ''string'')"
proof -
  let ?pk = "last (filter is_primary cols) ! 0"
  let ?sel = "filter (\<lambda>col. row_get col 0 = Inr ?pk) cols"
  let ?f = "\<lambda>col. case row_get col 1 of Inl e \<Rightarrow> Inl e | Inr c \<Rightarrow> cell_lower c"
  have "last (filter is_primary cols) \<in> set (filter is_primary cols)"
    using pk by (rule last_in_set)
  then have mem: "last (filter is_primary cols) \<in> set cols"
    using filter_is_subset [of is_primary cols] by blast
  with rows have "row_get (last (filter is_primary cols)) 0 = Inr ?pk"
    by (auto simp: row_get_def)
  with mem have ne: "?sel \<noteq> []" by (auto simp: filter_empty_conv)
  have "\<forall>x \<in> set ?sel. \<exists>y. ?f x = Inr y"
    using rows by (auto simp: row_get_def cell_lower_def)
  from comprehension_total [OF this] obtain ys
    where ys: "comprehension ?f ?sel = Inr ys" and len: "length ys = length ?sel" by blast
  from ne len obtain y ys' where "ys = y # ys'" by (cases ys) auto
  with ys show ?thesis by (simp add: pk_type_of_def)
qed

lemma spec_cases:
  assumes "create_enhanced_individual_table_spec t columns = Inr doc"
  obtains st qs where "build_schemas t columns = Inr st"
      and "add_smart_query_params columns t = Inr qs"
      and "(primary_key_column st = PyNone \<or> primary_key_column st = Str [])
           \<and> doc = openapi_document t st [(''/'', collection_path t qs)]
         \<or> (\<exists>pk ty. primary_key_column st = Str pk \<and> pk \<noteq> []
              \<and> pk_type_of columns (Str pk) = Inr ty
              \<and> doc = openapi_document t st
                   [(''/'', collection_path t qs), (''/{'' @ pk @ ''}'', item_path t pk ty)])"
  using assms
  by (auto simp add: create_enhanced_individual_table_spec_def
      split: sum.splits cell.splits if_splits)

lemma spec_total:
  assumes "build_schemas t columns = Inr st"
      and "add_smart_query_params columns t = Inr qs"
  shows "\<exists>doc. create_enhanced_individual_table_spec t columns = Inr doc"
proof (cases "primary_key_column st")
  case PyNone
  with assms show ?thesis by (simp add: create_enhanced_individual_table_spec_def)
next
  case (Str pk)
  show ?thesis
  proof (cases "pk = []")
    case True
    with Str assms show ?thesis by (simp add: create_enhanced_individual_table_spec_def)
  next
    case False
    have ne: "filter is_primary columns \<noteq> []"
      using build_schemas_rows(2) [OF assms(1)] Str by (auto split: if_splits)
    then have "last (filter is_primary columns) ! 0 = Str pk"
      using build_schemas_rows(2) [OF assms(1)] Str by simp
    with pk_type_of_total [OF build_schemas_rows(1) [OF assms(1)] ne]
    obtain ty where "pk_type_of columns (Str pk) = Inr ty" by auto
    with Str False assms show ?thesis by (simp add: create_enhanced_individual_table_spec_def)
  qed
qed

lemma doc_get:
  "json_get (openapi_document t st paths) ''components'' = Some (components_block t st)"
  "json_get (openapi_document t st paths) ''paths'' = Some (OrderedDict paths)"
  by (simp_all add: openapi_document_def json_get_OrderedDict)

lemma components_get:
  "json_get (components_block t st) ''schemas'' = Some (schemas_block t st)"
  "json_get (components_block t st) ''responses'' = Some (responses_block t)"
  by (simp_all add: components_block_def json_get_OrderedDict)

lemma schemas_block_update:
  "json_get (schemas_block t st) (update_schema_name t) = Some (update_table_schema st)"
  by (simp add: schemas_block_def json_get_OrderedDict update_schema_name_def)

lemma schemas_block_new:
  "json_get (schemas_block t st) (new_schema_name t) =
     Some (object_schema (new_properties st) (new_required st))"
  by (simp add: schemas_block_def json_get_OrderedDict update_schema_name_def new_schema_name_def)

lemma object_schema_get:
  "json_get (object_schema p r) ''properties'' = Some (JDict p)"
  "json_get (object_schema p r) ''required'' = Some (JList (map cell_json r))"
  by (simp_all add: object_schema_def json_get_OrderedDict)

lemma item_patch_body:
  "json_path (item_path t pk ty)
     [''patch'', ''requestBody'', ''content'', ''application/json'', ''schema'', ''$ref''] =
   Some (JStr (''#/components/schemas/'' @ update_schema_name t))"
  by (simp add: item_path_def item_patch_def request_body_def json_content_def schema_ref_def
      json_get_OrderedDict)

lemma collection_no_patch: "json_get (collection_path t qs) ''patch'' = None"
  by (simp add: collection_path_def json_get_OrderedDict)


section \<open>The update schema\<close>

text \<open>
  Claim C10. In every document of the per-table generator the update schema has the property
  map of the create schema and the empty required list, and a \<open>patch\<close> operation of any
  path takes the update schema as its request body.
\<close>

theorem update_schema_all_optional:
  assumes "create_enhanced_individual_table_spec t columns = Inr doc"
  shows "(\<exists>props. json_path doc [''components'', ''schemas'', new_schema_name t, ''properties'']
                    = Some (JDict props)
                \<and> json_path doc [''components'', ''schemas'', update_schema_name t, ''properties'']
                    = Some (JDict props))
       \<and> json_path doc [''components'', ''schemas'', update_schema_name t, ''required'']
           = Some (JList [])
       \<and> (\<forall>p r. json_path doc
                   [''paths'', p, ''patch'', ''requestBody'', ''content'', ''application/json'',
                    ''schema'', ''$ref''] = Some r \<longrightarrow>
                 r = JStr (''#/components/schemas/'' @ update_schema_name t))"
proof -
  from assms obtain st qs where
    doc: "(primary_key_column st = PyNone \<or> primary_key_column st = Str [])
           \<and> doc = openapi_document t st [(''/'', collection_path t qs)]
         \<or> (\<exists>pk ty. primary_key_column st = Str pk \<and> pk \<noteq> []
              \<and> pk_type_of columns (Str pk) = Inr ty
              \<and> doc = openapi_document t st
                   [(''/'', collection_path t qs), (''/{'' @ pk @ ''}'', item_path t pk ty)])"
    by (rule spec_cases)
  then obtain paths where d: "doc = openapi_document t st paths"
    and paths: "paths = [(''/'', collection_path t qs)]
       \<or> (\<exists>pk ty. paths = [(''/'', collection_path t qs), (''/{'' @ pk @ ''}'', item_path t pk ty)])"
    by blast
  have new: "json_path doc [''components'', ''schemas'', new_schema_name t, ''properties'']
               = Some (JDict (new_properties st))"
    by (simp add: d doc_get components_get schemas_block_new object_schema_get)
  have upd: "json_path doc [''components'', ''schemas'', update_schema_name t, ''properties'']
               = Some (JDict (new_properties st))"
    by (simp add: d doc_get components_get schemas_block_update
        update_table_schema_def object_schema_get)
  have req: "json_path doc [''components'', ''schemas'', update_schema_name t, ''required'']
               = Some (JList [])"
    by (simp add: d doc_get components_get schemas_block_update
        update_table_schema_def object_schema_get)
  have patch: "r = JStr (''#/components/schemas/'' @ update_schema_name t)"
    if "json_path doc
          [''paths'', p, ''patch'', ''requestBody'', ''content'', ''application/json'',
           ''schema'', ''$ref''] = Some r" for p r
    using that paths item_patch_body [of t]
    by (auto simp add: d doc_get json_get_OrderedDict collection_no_patch
        simp del: json_path.simps(2) split: if_splits
        simp add: json_path.simps(2) [of _ "''paths''"] json_path.simps(2) [of _ p]
                  json_path.simps(2) [of "collection_path t qs"])
  from new upd req patch show ?thesis by blast
qed

theorem update_schema_all_optional_witness:
  "\<exists>doc. create_enhanced_individual_table_spec ''users''
            [[Str ''id'', Str ''int(11)'', Str ''NO'', Str ''PRI'', PyNone, Str ''auto_increment''],
             [Str ''email'', Str ''varchar(255)'', Str ''NO'', Str [], PyNone, Str []],
             [Str ''created_at'', Str ''timestamp'', Str ''YES'', Str [], PyNone, Str []]] = Inr doc
     \<and> json_path doc [''components'', ''schemas'', ''CreateUser'', ''required'']
         = Some (JList [JStr ''email''])
     \<and> json_path doc [''components'', ''schemas'', ''UpdateUser'', ''required''] = Some (JList [])
     \<and> json_path doc [''components'', ''schemas'', ''UpdateUser'', ''properties'']
         = Some (JDict
             [(Str ''email'',
               JDict [(Str ''type'', JStr ''string''),
                      (Str ''format'', JStr ''email''),
                      (Str ''description'', JStr ''Valid email address''),
                      (Str ''example'', JStr ''user@example.com'')])])
     \<and> json_path doc
           [''paths'', ''/{id}'', ''patch'', ''requestBody'', ''content'', ''application/json'',
            ''schema'', ''$ref''] = Some (JStr ''#/components/schemas/UpdateUser'')"
proof -
  let ?cols = "[[Str ''id'', Str ''int(11)'', Str ''NO'', Str ''PRI'', PyNone, Str ''auto_increment''],
             [Str ''email'', Str ''varchar(255)'', Str ''NO'', Str [], PyNone, Str []],
             [Str ''created_at'', Str ''timestamp'', Str ''YES'', Str [], PyNone, Str []]]"
  let ?props = "JDict
             [(Str ''email'',
               JDict [(Str ''type'', JStr ''string''),
                      (Str ''format'', JStr ''email''),
                      (Str ''description'', JStr ''Valid email address''),
                      (Str ''example'', JStr ''user@example.com'')])]"
  obtain doc where e: "create_enhanced_individual_table_spec ''users'' ?cols = Inr doc"
    and c: "json_path doc [''components'', ''schemas'', ''CreateUser'', ''properties''] = Some ?props"
    and cr: "json_path doc [''components'', ''schemas'', ''CreateUser'', ''required'']
               = Some (JList [JStr ''email''])"
    and p: "json_path doc
           [''paths'', ''/{id}'', ''patch'', ''requestBody'', ''content'', ''application/json'',
            ''schema'', ''$ref''] \<noteq> None"
  proof -
    have "case create_enhanced_individual_table_spec ''users'' ?cols of
            Inl e \<Rightarrow> False
          | Inr doc \<Rightarrow>
              json_path doc [''components'', ''schemas'', ''CreateUser'', ''properties''] = Some ?props
              \<and> json_path doc [''components'', ''schemas'', ''CreateUser'', ''required'']
                   = Some (JList [JStr ''email''])
              \<and> json_path doc
                   [''paths'', ''/{id}'', ''patch'', ''requestBody'', ''content'',
                    ''application/json'', ''schema'', ''$ref''] \<noteq> None"
      by code_simp
    then show ?thesis using that by (auto split: sum.splits)
  qed
  have n: "new_schema_name ''users'' = ''CreateUser''" "update_schema_name ''users'' = ''UpdateUser''"
    by code_simp+
  from update_schema_all_optional [OF e] c p
  have "json_path doc [''components'', ''schemas'', ''UpdateUser'', ''properties''] = Some ?props
      \<and> json_path doc [''components'', ''schemas'', ''UpdateUser'', ''required''] = Some (JList [])
      \<and> json_path doc
           [''paths'', ''/{id}'', ''patch'', ''requestBody'', ''content'', ''application/json'',
            ''schema'', ''$ref''] = Some (JStr ''#/components/schemas/UpdateUser'')"
    unfolding n by auto
  with e cr show ?thesis by blast
qed


section \<open>Facts about the advisor output and the single-document generator\<close>

lemma text_columns_of_total:
  "\<forall>c \<in> set cols. \<exists>n ty rest. c = Str n # Str ty # rest \<Longrightarrow>
     \<exists>tc. text_columns_of cols = Inr tc \<and> (\<forall>x \<in> set tc. \<exists>n. x = Str n)"
proof (induction cols)
  case Nil
  show ?case by simp
next
  case (Cons c cols)
  then obtain tc where tc: "text_columns_of cols = Inr tc" "\<forall>x \<in> set tc. \<exists>n. x = Str n"
    by auto
  from Cons.prems obtain n ty rest where c: "c = Str n # Str ty # rest" by auto
  show ?case
    by (auto simp add: c tc is_text_column_def row_get_def cell_lower_def)
qed

lemma join_comma_total: "\<forall>x \<in> set cs. \<exists>n. x = Str n \<Longrightarrow> \<exists>j. join_comma cs = Inr j"
  by (induction cs rule: join_comma.induct) auto

lemma advisor_total:
  assumes "\<forall>c \<in> set columns. \<exists>n ty rest. c = Str n # Str ty # rest"
  shows "\<exists>ps. add_smart_query_params columns t = Inr ps"
proof -
  have "\<forall>c \<in> set columns. \<exists>y. col_name_lower c = Inr y"
    using assms by (auto simp: col_name_lower_def row_get_def cell_lower_def)
  from comprehension_total [OF this] obtain names
    where names: "comprehension col_name_lower columns = Inr names" by blast
  from text_columns_of_total [OF assms] obtain tc
    where tc: "text_columns_of columns = Inr tc" "\<forall>x \<in> set tc. \<exists>n. x = Str n" by blast
  have "\<forall>x \<in> set (take 3 tc). \<exists>n. x = Str n" using tc(2) by (auto dest: in_set_takeD)
  from join_comma_total [OF this] obtain j where j: "join_comma (take 3 tc) = Inr j" by blast
  show ?thesis
    by (simp add: add_smart_query_params_def Let_def names tc(1) j)
qed

lemma advisor_order:
  assumes "should_generate_query_params_individual t"
      and "add_smart_query_params columns t = Inr ps"
  shows "\<exists>names dates search.
           comprehension col_name_lower columns = Inr names
           \<and> ps = table_specific_params (lower t) names @ dates @ search
                  @ pagination_params columns
           \<and> (dates = [] \<or> dates = created_range_params)
           \<and> (search = [] \<or> (\<exists>joined n. search = [search_param joined n]))"
proof -
  from assms obtain names where names: "comprehension col_name_lower columns = Inr names"
    by (auto simp add: add_smart_query_params_def Let_def split: sum.splits)
  from assms names obtain tc where tc: "text_columns_of columns = Inr tc"
    by (auto simp add: add_smart_query_params_def Let_def split: sum.splits)
  let ?dates = "if list_ex (\<lambda>col. contains ''created_at'' col) names
                then created_range_params else []"
  have d: "?dates = [] \<or> ?dates = created_range_params" by simp
  show ?thesis
  proof (cases "length tc > 1")
    case True
    with assms names tc obtain j where
      ps: "ps = table_specific_params (lower t) names @ ?dates @ [search_param j (length tc)]
                @ pagination_params columns"
      by (auto simp add: add_smart_query_params_def Let_def split: sum.splits)
    have s: "\<exists>joined n. [search_param j (length tc)] = [search_param joined n]" by blast
    from names ps d s show ?thesis by blast
  next
    case False
    with assms names tc have
      ps: "ps = table_specific_params (lower t) names @ ?dates @ [] @ pagination_params columns"
      by (auto simp add: add_smart_query_params_def Let_def split: sum.splits)
    from names ps d show ?thesis by blast
  qed
qed

lemma last_four:
  "param_names (drop (length (pre @ pagination_params columns) - 4)
                  (pre @ pagination_params columns)) =
     [Some (JStr ''page''), Some (JStr ''limit''), Some (JStr ''sort_by''),
      Some (JStr ''sort_order'')]"
proof -
  have "length (pagination_params columns) = 4" by (simp add: pagination_params_def)
  then have "drop (length (pre @ pagination_params columns) - 4)
                  (pre @ pagination_params columns) = pagination_params columns"
    by simp
  then show ?thesis by (simp add: pagination_names)
qed

lemma json_get_json_set:
  "json_get (json_set (OrderedDict pairs) k v) k = Some v"
  by (simp add: OrderedDict_dict_sets json_set_def json_get_def dict_get_set)

lemma get_endpoint_parameters:
  "qs \<noteq> [] \<Longrightarrow> json_get (get_endpoint t qs) ''parameters'' = Some (JList qs)"
  by (simp add: get_endpoint_def Let_def json_get_json_set)

lemma collection_get: "json_get (collection_path t qs) ''get'' = Some (get_endpoint t qs)"
  by (simp add: collection_path_def json_get_OrderedDict)

lemma spec_collection:
  assumes "create_enhanced_individual_table_spec t columns = Inr doc"
      and "add_smart_query_params columns t = Inr qs"
  shows "json_path doc [''paths'', ''/''] = Some (collection_path t qs)"
proof -
  from assms(1) obtain st qs' where qs': "add_smart_query_params columns t = Inr qs'"
    and doc: "(primary_key_column st = PyNone \<or> primary_key_column st = Str [])
           \<and> doc = openapi_document t st [(''/'', collection_path t qs')]
         \<or> (\<exists>pk ty. primary_key_column st = Str pk \<and> pk \<noteq> []
              \<and> pk_type_of columns (Str pk) = Inr ty
              \<and> doc = openapi_document t st
                   [(''/'', collection_path t qs'), (''/{'' @ pk @ ''}'', item_path t pk ty)])"
    by (rule spec_cases)
  from qs' assms(2) have "qs' = qs" by simp
  with doc show ?thesis by (auto simp add: doc_get json_get_OrderedDict)
qed

lemma collection_basic_parameters:
  "json_path (collection_path_basic t) [''get'', ''parameters''] = Some (JList limit_offset_params)"
  by (simp add: collection_path_basic_def get_endpoint_basic_def json_get_OrderedDict)

lemma limit_offset_names:
  "param_names limit_offset_params = [Some (JStr ''limit''), Some (JStr ''offset'')]"
  by (simp add: param_names_def limit_offset_params_def json_get_OrderedDict)

lemma process_table_basic_cases:
  assumes "process_table_basic describe st t = (st', r)"
  obtains e where "r = Some e" "st' = st"
    | "r = None" "st' = st" "describe t = Inr []"
    | columns s where "r = None" "describe t = Inr columns" "columns \<noteq> []"
        "build_schemas_basic columns = Inr s"
        "primary_key_column s = PyNone \<or> primary_key_column s = Str []"
        "st' = mark_processed t (store_collection_basic t (store_schemas_basic t s st))"
    | columns s pk ty where "r = None" "describe t = Inr columns" "columns \<noteq> []"
        "build_schemas_basic columns = Inr s"
        "primary_key_column s = Str pk" "pk \<noteq> []" "pk_type_of columns (Str pk) = Inr ty"
        "st' = mark_processed t (store_item_basic t pk ty
                 (store_collection_basic t (store_schemas_basic t s st)))"
proof (cases "describe t")
  case (Inl e)
  with assms that(1) show ?thesis by (auto simp add: process_table_basic_def)
next
  case (Inr columns)
  show ?thesis
  proof (cases "columns = []")
    case True
    with Inr assms that(2) show ?thesis by (auto simp add: process_table_basic_def)
  next
    case ne: False
    show ?thesis
    proof (cases "build_schemas_basic columns")
      case (Inl e)
      with Inr ne assms that(1) show ?thesis by (auto simp add: process_table_basic_def)
    next
      case s: (Inr s)
      show ?thesis
      proof (cases "primary_key_column s = PyNone \<or> primary_key_column s = Str []")
        case True
        with Inr ne s assms that(3) [OF _ Inr ne s True] show ?thesis
          by (auto simp add: process_table_basic_def Let_def)
      next
        case False
        then obtain pk where pk: "primary_key_column s = Str pk" "pk \<noteq> []"
          by (cases "primary_key_column s") auto
        have nep: "filter is_primary columns \<noteq> []"
          using build_schemas_basic_rows(2) [OF s] pk by (auto split: if_splits)
        then have "last (filter is_primary columns) ! 0 = Str pk"
          using build_schemas_basic_rows(2) [OF s] pk by simp
        with pk_type_of_total [OF build_schemas_basic_rows(1) [OF s] nep]
        obtain ty where ty: "pk_type_of columns (Str pk) = Inr ty" by auto
        with Inr ne s pk assms that(4) [OF _ Inr ne s pk ty] show ?thesis
          by (auto simp add: process_table_basic_def Let_def)
      qed
    qed
  qed
qed

lemma processed_collection_basic:
  assumes "process_table_basic describe st t = (st', None)"
      and "describe t \<noteq> Inr []"
  shows "dict_get (spec_paths st') (Str (''/'' @ t)) = Some (collection_path_basic t)"
  using assms(1)
proof (cases rule: process_table_basic_cases)
  case (1 e)
  then show ?thesis by simp
next
  case 2
  with assms(2) show ?thesis by simp
next
  case (3 columns s)
  then show ?thesis
    by (simp add: mark_processed_def store_collection_basic_def store_schemas_basic_def dict_get_set)
next
  case (4 columns s pk ty)
  then show ?thesis
    by (simp add: mark_processed_def store_item_basic_def store_collection_basic_def
        store_schemas_basic_def dict_get_set)
qed

section \<open>Pagination and sorting come last\<close>

text \<open>
  Claim C4, as stated, fails on the single-document generator, which has no advisor: the
  collection \<open>get\<close> of every table, \<open>users\<close> included, carries the two parameters
  \<open>limit\<close> and \<open>offset\<close>.
\<close>

theorem basic_collection_parameters_counterexample:
  "should_generate_query_params_individual ''users''
   \<and> parameter_names
        (doc_path
           (written
              (export_mysql_to_openapi_yaml
                 (describe_of
                    [(''users'',
                      [[Str ''id'', Str ''int(11)'', Str ''NO'', Str ''PRI'', PyNone,
                        Str ''auto_increment''],
                       [Str ''name'', Str ''varchar(100)'', Str ''NO'', Str [], PyNone, Str []]])])
                 (prefix ''exports/'') [''users'']))
           [''paths'', ''/users'', ''get'', ''parameters'']) =
       [Some (JStr ''limit''), Some (JStr ''offset'')]"
  by code_simp


text \<open>
  Claim C4, amended. For a searchable table the advisor of the per-table generator returns
  a sequence on every column list whose rows start with a name and a type; whenever it
  returns a sequence, that sequence is not empty, it is made of the table-specific
  parameters, then the creation date range (if any), then the text search (if any), then
  the pagination and sorting parameters, so that its last four names are \<open>page\<close>,
  \<open>limit\<close>, \<open>sort_by\<close>, \<open>sort_order\<close>, and it is the parameter list of the collection
  \<open>get\<close> of the document. The single-document generator gives the collection \<open>get\<close> of
  every processed table the fixed parameters \<open>limit\<close> and \<open>offset\<close>.
\<close>

theorem pagination_parameters_last:
  assumes "should_generate_query_params_individual t"
  shows "((\<forall>c \<in> set columns. \<exists>n ty rest. c = Str n # Str ty # rest) \<longrightarrow>
            (\<exists>ps. add_smart_query_params columns t = Inr ps))
       \<and> (\<forall>ps. add_smart_query_params columns t = Inr ps \<longrightarrow>
             ps \<noteq> []
             \<and> param_names (drop (length ps - 4) ps) =
                 [Some (JStr ''page''), Some (JStr ''limit''), Some (JStr ''sort_by''),
                  Some (JStr ''sort_order'')]
             \<and> (\<exists>names dates search.
                   comprehension col_name_lower columns = Inr names
                   \<and> ps = table_specific_params (lower t) names @ dates @ search
                          @ pagination_params columns
                   \<and> (dates = [] \<or> dates = created_range_params)
                   \<and> (search = [] \<or> (\<exists>joined n. search = [search_param joined n])))
             \<and> (\<forall>doc. create_enhanced_individual_table_spec t columns = Inr doc \<longrightarrow>
                   json_path doc [''paths'', ''/'', ''get'', ''parameters''] = Some (JList ps)))
       \<and> (\<forall>describe st st'.
             process_table_basic describe st t = (st', None) \<longrightarrow> describe t \<noteq> Inr [] \<longrightarrow>
               json_path (JDict (spec_paths st')) [''/'' @ t, ''get'', ''parameters'']
                 = Some (JList limit_offset_params))
       \<and> param_names limit_offset_params = [Some (JStr ''limit''), Some (JStr ''offset'')]"
proof -
  have total: "(\<forall>c \<in> set columns. \<exists>n ty rest. c = Str n # Str ty # rest) \<longrightarrow>
            (\<exists>ps. add_smart_query_params columns t = Inr ps)"
    using advisor_total [of columns t] by blast
  have enhanced: "ps \<noteq> []
             \<and> param_names (drop (length ps - 4) ps) =
                 [Some (JStr ''page''), Some (JStr ''limit''), Some (JStr ''sort_by''),
                  Some (JStr ''sort_order'')]
             \<and> (\<exists>names dates search.
                   comprehension col_name_lower columns = Inr names
                   \<and> ps = table_specific_params (lower t) names @ dates @ search
                          @ pagination_params columns
                   \<and> (dates = [] \<or> dates = created_range_params)
                   \<and> (search = [] \<or> (\<exists>joined n. search = [search_param joined n])))
             \<and> (\<forall>doc. create_enhanced_individual_table_spec t columns = Inr doc \<longrightarrow>
                   json_path doc [''paths'', ''/'', ''get'', ''parameters''] = Some (JList ps))"
    if ps: "add_smart_query_params columns t = Inr ps" for ps
  proof -
    from searchable_shape [OF assms ps] obtain pre
      where pre: "ps = pre @ pagination_params columns" by blast
    have ne: "ps \<noteq> []" by (simp add: pre pagination_params_def)
    have four: "param_names (drop (length ps - 4) ps) =
                 [Some (JStr ''page''), Some (JStr ''limit''), Some (JStr ''sort_by''),
                  Some (JStr ''sort_order'')]"
      unfolding pre by (rule last_four)
    have doc: "json_path doc [''paths'', ''/'', ''get'', ''parameters''] = Some (JList ps)"
      if "create_enhanced_individual_table_spec t columns = Inr doc" for doc
    proof -
      from spec_collection [OF that ps]
      have "json_path doc [''paths'', ''/''] = Some (collection_path t ps)" .
      then show ?thesis
        by (auto simp add: collection_get get_endpoint_parameters [OF ne] split: option.splits)
    qed
    from ne four advisor_order [OF assms ps] doc show ?thesis by blast
  qed
  have basic: "json_path (JDict (spec_paths st')) [''/'' @ t, ''get'', ''parameters'']
                 = Some (JList limit_offset_params)"
    if "process_table_basic describe st t = (st', None)" "describe t \<noteq> Inr []"
    for describe st st'
    using processed_collection_basic [OF that] collection_basic_parameters [of t]
    by (simp add: json_get_def)
  from total enhanced basic limit_offset_names show ?thesis by blast
qed

theorem pagination_parameters_last_witness:
  "should_generate_query_params_individual ''users''
   \<and> (\<exists>ps. add_smart_query_params
              [[Str ''id'', Str ''int(11)'', Str ''NO'', Str ''PRI'', PyNone, Str ''auto_increment''],
               [Str ''name'', Str ''varchar(100)'', Str ''NO'', Str [], PyNone, Str []],
               [Str ''email'', Str ''varchar(255)'', Str ''NO'', Str [], PyNone, Str []],
               [Str ''created_at'', Str ''timestamp'', Str ''YES'', Str [], PyNone, Str []]]
              ''users'' = Inr ps
         \<and> param_names ps =
             [Some (JStr ''role_id''), Some (JStr ''active''), Some (JStr ''name_search''),
              Some (JStr ''created_from''), Some (JStr ''created_to''), Some (JStr ''search''),
              Some (JStr ''page''), Some (JStr ''limit''), Some (JStr ''sort_by''),
              Some (JStr ''sort_order'')]
         \<and> param_names (drop (length ps - 4) ps) =
             [Some (JStr ''page''), Some (JStr ''limit''), Some (JStr ''sort_by''),
              Some (JStr ''sort_order'')]
         \<and> result_path
              (create_enhanced_individual_table_spec ''users''
                 [[Str ''id'', Str ''int(11)'', Str ''NO'', Str ''PRI'', PyNone,
                   Str ''auto_increment''],
                  [Str ''name'', Str ''varchar(100)'', Str ''NO'', Str [], PyNone, Str []],
                  [Str ''email'', Str ''varchar(255)'', Str ''NO'', Str [], PyNone, Str []],
                  [Str ''created_at'', Str ''timestamp'', Str ''YES'', Str [], PyNone, Str []]])
              [''paths'', ''/'', ''get'', ''parameters''] = Some (JList ps))"
proof -
  let ?cols = "[[Str ''id'', Str ''int(11)'', Str ''NO'', Str ''PRI'', PyNone, Str ''auto_increment''],
               [Str ''name'', Str ''varchar(100)'', Str ''NO'', Str [], PyNone, Str []],
               [Str ''email'', Str ''varchar(255)'', Str ''NO'', Str [], PyNone, Str []],
               [Str ''created_at'', Str ''timestamp'', Str ''YES'', Str [], PyNone, Str []]]"
  have h: "should_generate_query_params_individual ''users''" by code_simp
  have wf: "\<forall>c \<in> set ?cols. \<exists>n ty rest. c = Str n # Str ty # rest" by simp
  note claim = pagination_parameters_last [OF h, of ?cols]
  from claim wf obtain ps where ps: "add_smart_query_params ?cols ''users'' = Inr ps" by blast
  have names: "case add_smart_query_params ?cols ''users'' of
                 Inl e \<Rightarrow> False
               | Inr ps \<Rightarrow> param_names ps =
                   [Some (JStr ''role_id''), Some (JStr ''active''), Some (JStr ''name_search''),
                    Some (JStr ''created_from''), Some (JStr ''created_to''),
                    Some (JStr ''search''), Some (JStr ''page''), Some (JStr ''limit''),
                    Some (JStr ''sort_by''), Some (JStr ''sort_order'')]"
    by code_simp
  have ex: "case create_enhanced_individual_table_spec ''users'' ?cols of
              Inl e \<Rightarrow> False | Inr doc \<Rightarrow> True"
    by code_simp
  then obtain doc where doc: "create_enhanced_individual_table_spec ''users'' ?cols = Inr doc"
    by (auto split: sum.splits)
  from claim ps doc
  have "param_names (drop (length ps - 4) ps) =
             [Some (JStr ''page''), Some (JStr ''limit''), Some (JStr ''sort_by''),
              Some (JStr ''sort_order'')]
      \<and> json_path doc [''paths'', ''/'', ''get'', ''parameters''] = Some (JList ps)"
    by blast
  with h ps names doc show ?thesis by (auto simp add: result_path_def)
qed


section \<open>Facts about the paths of a table\<close>

lemma json_keys_OrderedDict:
  "distinct (map fst pairs) \<Longrightarrow> json_keys (Some (OrderedDict pairs)) = map (\<lambda>p. Str (fst p)) pairs"
  by (simp add: OrderedDict_distinct json_keys_def dict_keys_def comp_def)

lemma collection_keys: "json_keys (Some (collection_path t qs)) = [Str ''get'', Str ''post'']"
  by (simp add: collection_path_def json_keys_OrderedDict)

lemma item_keys:
  "json_keys (Some (item_path t pk ty)) = [Str ''get'', Str ''put'', Str ''patch'', Str ''delete'']"
  by (simp add: item_path_def json_keys_OrderedDict)

lemma collection_basic_keys: "json_keys (Some (collection_path_basic t)) = [Str ''get'', Str ''post'']"
  by (simp add: collection_path_basic_def json_keys_OrderedDict)

lemma item_basic_keys:
  "json_keys (Some (item_path_basic t pk ty)) = [Str ''get'', Str ''put'', Str ''delete'']"
  by (simp add: item_path_basic_def json_keys_OrderedDict)

lemma last_primary:
  assumes "filter is_primary columns \<noteq> []"
      and "\<forall>c \<in> set columns. is_primary c \<longrightarrow> (\<exists>n. c ! 0 = Str n \<and> n \<noteq> [])"
  shows "\<exists>n. last (filter is_primary columns) ! 0 = Str n \<and> n \<noteq> []"
proof -
  have "last (filter is_primary columns) \<in> set (filter is_primary columns)"
    using assms(1) by (rule last_in_set)
  with assms(2) show ?thesis by auto
qed

lemma spec_paths_enhanced:
  assumes doc: "create_enhanced_individual_table_spec t columns = Inr doc"
      and names: "\<forall>c \<in> set columns. is_primary c \<longrightarrow> (\<exists>n. c ! 0 = Str n \<and> n \<noteq> [])"
  shows "json_keys (json_path doc [''paths'', ''/'']) = [Str ''get'', Str ''post'']"
    and "(\<exists>c \<in> set columns. is_primary c) \<Longrightarrow>
           \<exists>pk. last (filter is_primary columns) ! 0 = Str pk
             \<and> json_keys (json_path doc [''paths'']) = [Str ''/'', Str (''/{'' @ pk @ ''}'')]
             \<and> json_keys (json_path doc [''paths'', ''/{'' @ pk @ ''}'']) =
                 [Str ''get'', Str ''put'', Str ''patch'', Str ''delete'']"
    and "\<not> (\<exists>c \<in> set columns. is_primary c) \<Longrightarrow>
           json_keys (json_path doc [''paths'']) = [Str ''/'']"
proof -
  from doc obtain st qs where st: "build_schemas t columns = Inr st"
    and qs: "add_smart_query_params columns t = Inr qs"
    and d: "(primary_key_column st = PyNone \<or> primary_key_column st = Str [])
           \<and> doc = openapi_document t st [(''/'', collection_path t qs)]
         \<or> (\<exists>pk ty. primary_key_column st = Str pk \<and> pk \<noteq> []
              \<and> pk_type_of columns (Str pk) = Inr ty
              \<and> doc = openapi_document t st
                   [(''/'', collection_path t qs), (''/{'' @ pk @ ''}'', item_path t pk ty)])"
    by (rule spec_cases)
  note pkc = build_schemas_rows(2) [OF st]
  from spec_collection [OF doc qs]
  show "json_keys (json_path doc [''paths'', ''/'']) = [Str ''get'', Str ''post'']"
    by (simp add: collection_keys)
  show "\<exists>pk. last (filter is_primary columns) ! 0 = Str pk
             \<and> json_keys (json_path doc [''paths'']) = [Str ''/'', Str (''/{'' @ pk @ ''}'')]
             \<and> json_keys (json_path doc [''paths'', ''/{'' @ pk @ ''}'']) =
                 [Str ''get'', Str ''put'', Str ''patch'', Str ''delete'']"
    if "\<exists>c \<in> set columns. is_primary c"
  proof -
    from that have ne: "filter is_primary columns \<noteq> []" by (auto simp: filter_empty_conv)
    from last_primary [OF ne names] obtain n
      where n: "last (filter is_primary columns) ! 0 = Str n" "n \<noteq> []" by blast
    with pkc ne have "primary_key_column st = Str n" by simp
    with d n obtain ty where
      dd: "doc = openapi_document t st
             [(''/'', collection_path t qs), (''/{'' @ n @ ''}'', item_path t n ty)]"
      by auto
    have "json_keys (json_path doc [''paths'']) = [Str ''/'', Str (''/{'' @ n @ ''}'')]"
      by (simp add: dd doc_get json_keys_OrderedDict)
    moreover have "json_path doc [''paths'', ''/{'' @ n @ ''}''] = Some (item_path t n ty)"
      by (simp add: dd doc_get json_get_OrderedDict)
    ultimately show ?thesis using n(1) by (simp add: item_keys)
  qed
  show "json_keys (json_path doc [''paths'']) = [Str ''/'']"
    if "\<not> (\<exists>c \<in> set columns. is_primary c)"
  proof -
    from that have "filter is_primary columns = []" by (auto simp: filter_empty_conv)
    with pkc have "primary_key_column st = PyNone" by simp
    with d have "doc = openapi_document t st [(''/'', collection_path t qs)]" by auto
    then show ?thesis by (simp add: doc_get json_keys_OrderedDict)
  qed
qed

lemma spec_paths_basic:
  assumes run: "process_table_basic describe st t = (st', None)"
      and cols: "describe t = Inr columns" "columns \<noteq> []"
      and names: "\<forall>c \<in> set columns. is_primary c \<longrightarrow> (\<exists>n. c ! 0 = Str n \<and> n \<noteq> [])"
  shows "(\<exists>c \<in> set columns. is_primary c) \<Longrightarrow>
           \<exists>pk ty. last (filter is_primary columns) ! 0 = Str pk
             \<and> spec_paths st' =
                 dict_set
                   (dict_set (spec_paths st) (Str (''/'' @ t)) (collection_path_basic t))
                   (Str (''/'' @ t @ ''/{'' @ pk @ ''}'')) (item_path_basic t pk ty)"
    and "\<not> (\<exists>c \<in> set columns. is_primary c) \<Longrightarrow>
           spec_paths st' = dict_set (spec_paths st) (Str (''/'' @ t)) (collection_path_basic t)"
proof -
  show "\<exists>pk ty. last (filter is_primary columns) ! 0 = Str pk
             \<and> spec_paths st' =
                 dict_set
                   (dict_set (spec_paths st) (Str (''/'' @ t)) (collection_path_basic t))
                   (Str (''/'' @ t @ ''/{'' @ pk @ ''}'')) (item_path_basic t pk ty)"
    if pk: "\<exists>c \<in> set columns. is_primary c"
    using run
  proof (cases rule: process_table_basic_cases)
    case (1 e)
    then show ?thesis by simp
  next
    case 2
    with cols show ?thesis by simp
  next
    case (3 columns' s)
    with cols have s: "build_schemas_basic columns = Inr s" by simp
    from pk have ne: "filter is_primary columns \<noteq> []" by (auto simp: filter_empty_conv)
    from last_primary [OF ne names] build_schemas_basic_rows(2) [OF s] ne 3(5)
    show ?thesis by auto
  next
    case (4 columns' s pk' ty)
    with cols have s: "build_schemas_basic columns = Inr s" by simp
    from pk have ne: "filter is_primary columns \<noteq> []" by (auto simp: filter_empty_conv)
    from build_schemas_basic_rows(2) [OF s] ne 4(5)
    have "last (filter is_primary columns) ! 0 = Str pk'" by simp
    with 4(8) show ?thesis
      by (auto simp add: mark_processed_def store_item_basic_def store_collection_basic_def
          store_schemas_basic_def)
  qed
  show "spec_paths st' = dict_set (spec_paths st) (Str (''/'' @ t)) (collection_path_basic t)"
    if nopk: "\<not> (\<exists>c \<in> set columns. is_primary c)"
    using run
  proof (cases rule: process_table_basic_cases)
    case (1 e)
    then show ?thesis by simp
  next
    case 2
    with cols show ?thesis by simp
  next
    case (3 columns' s)
    then show ?thesis
      by (simp add: mark_processed_def store_collection_basic_def store_schemas_basic_def)
  next
    case (4 columns' s pk' ty)
    with cols have s: "build_schemas_basic columns = Inr s" by simp
    from nopk have "filter is_primary columns = []" by (auto simp: filter_empty_conv)
    with build_schemas_basic_rows(2) [OF s] 4(5) show ?thesis by simp
  qed
qed

section \<open>The item path\<close>

text \<open>
  Claim C7, as stated, fails on the single-document generator: for a table with a primary
  key its item path has the operations \<open>get\<close>, \<open>put\<close> and \<open>delete\<close>, and no \<open>patch\<close>.
\<close>

theorem basic_item_path_counterexample:
  "is_primary [Str ''id'', Str ''int(11)'', Str ''NO'', Str ''PRI'', PyNone, Str ''auto_increment'']
   \<and> json_keys
        (doc_path
           (written
              (export_mysql_to_openapi_yaml
                 (describe_of
                    [(''users'',
                      [[Str ''id'', Str ''int(11)'', Str ''NO'', Str ''PRI'', PyNone,
                        Str ''auto_increment''],
                       [Str ''name'', Str ''varchar(100)'', Str ''NO'', Str [], PyNone, Str []]])])
                 (prefix ''exports/'') [''users'']))
           [''paths'', ''/users/{id}'']) =
       [Str ''get'', Str ''put'', Str ''delete'']"
  by code_simp


text \<open>
  Claim C7, amended. Let the name of every primary key column be a non-empty string. A
  document of the per-table generator has the collection path \<open>/\<close> with \<open>get\<close> and
  \<open>post\<close>; it has one more path exactly when some column is a primary key, and that path
  is keyed by the name of the last primary key column and has the operations \<open>get\<close>,
  \<open>put\<close>, \<open>patch\<close>, \<open>delete\<close>. A table processed by the single-document generator adds
  the collection path with \<open>get\<close> and \<open>post\<close> to the path map; it adds one more path
  exactly when some column is a primary key, keyed by the name of the last primary key
  column, with the operations \<open>get\<close>, \<open>put\<close>, \<open>delete\<close>.
\<close>

theorem item_path_iff_primary_key:
  assumes "\<forall>c \<in> set columns. is_primary c \<longrightarrow> (\<exists>n. c ! 0 = Str n \<and> n \<noteq> [])"
  shows "(\<forall>doc. create_enhanced_individual_table_spec t columns = Inr doc \<longrightarrow>
            json_keys (json_path doc [''paths'', ''/'']) = [Str ''get'', Str ''post'']
            \<and> (if \<exists>c \<in> set columns. is_primary c then
                  \<exists>pk. last (filter is_primary columns) ! 0 = Str pk
                    \<and> json_keys (json_path doc [''paths'']) =
                        [Str ''/'', Str (''/{'' @ pk @ ''}'')]
                    \<and> json_keys (json_path doc [''paths'', ''/{'' @ pk @ ''}'']) =
                        [Str ''get'', Str ''put'', Str ''patch'', Str ''delete'']
                else json_keys (json_path doc [''paths'']) = [Str ''/'']))
       \<and> (\<forall>describe st st'.
            process_table_basic describe st t = (st', None) \<longrightarrow>
            describe t = Inr columns \<longrightarrow> columns \<noteq> [] \<longrightarrow>
              (if \<exists>c \<in> set columns. is_primary c then
                 \<exists>pk ty. last (filter is_primary columns) ! 0 = Str pk
                   \<and> spec_paths st' =
                       dict_set
                         (dict_set (spec_paths st) (Str (''/'' @ t)) (collection_path_basic t))
                         (Str (''/'' @ t @ ''/{'' @ pk @ ''}'')) (item_path_basic t pk ty)
               else spec_paths st' =
                      dict_set (spec_paths st) (Str (''/'' @ t)) (collection_path_basic t)))
       \<and> json_keys (Some (collection_path_basic t)) = [Str ''get'', Str ''post'']
       \<and> (\<forall>pk ty. json_keys (Some (item_path_basic t pk ty)) =
                     [Str ''get'', Str ''put'', Str ''delete''])"
proof -
  have enhanced:
    "json_keys (json_path doc [''paths'', ''/'']) = [Str ''get'', Str ''post'']
     \<and> (if \<exists>c \<in> set columns. is_primary c then
           \<exists>pk. last (filter is_primary columns) ! 0 = Str pk
             \<and> json_keys (json_path doc [''paths'']) = [Str ''/'', Str (''/{'' @ pk @ ''}'')]
             \<and> json_keys (json_path doc [''paths'', ''/{'' @ pk @ ''}'']) =
                 [Str ''get'', Str ''put'', Str ''patch'', Str ''delete'']
         else json_keys (json_path doc [''paths'']) = [Str ''/''])"
    if doc: "create_enhanced_individual_table_spec t columns = Inr doc" for doc
    using spec_paths_enhanced [OF doc assms] by (cases "\<exists>c \<in> set columns. is_primary c") simp_all
  have basic:
    "if \<exists>c \<in> set columns. is_primary c then
       \<exists>pk ty. last (filter is_primary columns) ! 0 = Str pk
         \<and> spec_paths st' =
             dict_set
               (dict_set (spec_paths st) (Str (''/'' @ t)) (collection_path_basic t))
               (Str (''/'' @ t @ ''/{'' @ pk @ ''}'')) (item_path_basic t pk ty)
     else spec_paths st' =
            dict_set (spec_paths st) (Str (''/'' @ t)) (collection_path_basic t)"
    if "process_table_basic describe st t = (st', None)" "describe t = Inr columns"
       "columns \<noteq> []" for describe st st'
    using spec_paths_basic [OF that assms] by (cases "\<exists>c \<in> set columns. is_primary c") simp_all
  from enhanced basic collection_basic_keys [of t] item_basic_keys [of t]
  show ?thesis by blast
qed

theorem item_path_iff_primary_key_witness:
  "(\<exists>doc. create_enhanced_individual_table_spec ''users''
             [[Str ''id'', Str ''int(11)'', Str ''NO'', Str ''PRI'', PyNone, Str ''auto_increment''],
              [Str ''name'', Str ''varchar(100)'', Str ''NO'', Str [], PyNone, Str []]] = Inr doc
      \<and> json_keys (json_path doc [''paths'']) = [Str ''/'', Str ''/{id}'']
      \<and> json_keys (json_path doc [''paths'', ''/{id}'']) =
          [Str ''get'', Str ''put'', Str ''patch'', Str ''delete''])
   \<and> (\<exists>doc. create_enhanced_individual_table_spec ''tags''
             [[Str ''label'', Str ''varchar(100)'', Str ''NO'', Str [], PyNone, Str []]] = Inr doc
      \<and> json_keys (json_path doc [''paths'']) = [Str ''/'']
      \<and> json_keys (json_path doc [''paths'', ''/'']) = [Str ''get'', Str ''post''])"
proof -
  let ?users = "[[Str ''id'', Str ''int(11)'', Str ''NO'', Str ''PRI'', PyNone, Str ''auto_increment''],
              [Str ''name'', Str ''varchar(100)'', Str ''NO'', Str [], PyNone, Str []]]"
  let ?tags = "[[Str ''label'', Str ''varchar(100)'', Str ''NO'', Str [], PyNone, Str []]]"
  have h1: "\<forall>c \<in> set ?users. is_primary c \<longrightarrow> (\<exists>n. c ! 0 = Str n \<and> n \<noteq> [])" by simp
  have h2: "\<forall>c \<in> set ?tags. is_primary c \<longrightarrow> (\<exists>n. c ! 0 = Str n \<and> n \<noteq> [])" by simp
  have p1: "\<exists>c \<in> set ?users. is_primary c" by code_simp
  have p2: "\<not> (\<exists>c \<in> set ?tags. is_primary c)" by code_simp
  have l: "last (filter is_primary ?users) ! 0 = Str ''id''" by code_simp
  have "case create_enhanced_individual_table_spec ''users'' ?users of
          Inl e \<Rightarrow> False | Inr doc \<Rightarrow> True"
    by code_simp
  then obtain d1 where d1: "create_enhanced_individual_table_spec ''users'' ?users = Inr d1"
    by (auto split: sum.splits)
  have "case create_enhanced_individual_table_spec ''tags'' ?tags of
          Inl e \<Rightarrow> False | Inr doc \<Rightarrow> True"
    by code_simp
  then obtain d2 where d2: "create_enhanced_individual_table_spec ''tags'' ?tags = Inr d2"
    by (auto split: sum.splits)
  from item_path_iff_primary_key [OF h1, of "''users''"] d1 p1 l
  have a: "json_keys (json_path d1 [''paths'']) = [Str ''/'', Str ''/{id}'']
      \<and> json_keys (json_path d1 [''paths'', ''/{id}'']) =
          [Str ''get'', Str ''put'', Str ''patch'', Str ''delete'']"
    by (auto simp del: json_path.simps)
  from item_path_iff_primary_key [OF h2, of "''tags''"] d2 p2
  have b: "json_keys (json_path d2 [''paths'']) = [Str ''/'']
      \<and> json_keys (json_path d2 [''paths'', ''/'']) = [Str ''get'', Str ''post'']"
    by (auto simp del: json_path.simps)
  from d1 a d2 b show ?thesis by blast
qed


section \<open>Facts about the table loops\<close>





lemma run_tables_basic_append:
  "run_tables_basic describe st (xs @ ys) =
     run_tables_basic describe (run_tables_basic describe st xs) ys"
  by (simp add: run_tables_basic_def)





lemma process_table_written:
  assumes "describe t = Inr columns" "columns \<noteq> []"
      and "create_enhanced_individual_table_spec t columns = Inr doc"
      and "writable (''exports/individual_apis_enhanced/'' @ t @ ''_api.yaml'')"
  shows "snd (process_table describe writable st0 t) = Some NameError"
    and "map_of (files (fst (process_table describe writable st0 t)))
           (''exports/individual_apis_enhanced/'' @ t @ ''_api.yaml'') = Some doc"
  using assms by (simp_all add: process_table_def Let_def write_file_def)
















section \<open>Failure isolation\<close>





end
